theory Spec2Isabelle
  imports Main
begin

section \<open>JitsiLocalTrack: data model\<close>

text \<open>
  The development embeds the class \<^verbatim>\<open>JitsiLocalTrack\<close> (modules/RTC/JitsiLocalTrack).
  The JavaScript event loop is single threaded: a function body runs without interruption
  up to its next asynchronous boundary. A promise is modelled by the computation that
  settles it; an asynchronous method is modelled by the state transformer obtained by
  running its continuations in order, and where a claim speaks about what happens between
  two continuations the method is split at that boundary.

  The collaborators the class calls but does not define (browser detection, \<^verbatim>\<open>RTCUtils\<close>,
  \<^verbatim>\<open>JitsiConference\<close>) are a record of oracles \<open>env\<close>, indexed by the number of earlier calls, so
  that every outcome (success or rejection) can be scripted, and a record \<open>world\<close> that logs
  every call made to them.
\<close>

datatype media_type = AUDIO | VIDEO | MediaType_DESKTOP

datatype video_type = CAMERA | DESKTOP

datatype camera_facing_mode = ENVIRONMENT | USER

text \<open>
  The values a promise of this class is rejected with: a \<^verbatim>\<open>JitsiTrackError\<close> with its error
  name, a plain \<^verbatim>\<open>Error\<close> with its message, the \<^verbatim>\<open>TypeError\<close> of a property read on
  \<^verbatim>\<open>null\<close>, and the raw reason a collaborator rejected with.
\<close>

datatype error =
    JitsiTrackError string
  | Error string
  | TypeError
  | Rejection string

definition TRACK_IS_DISPOSED :: string where
  "TRACK_IS_DISPOSED = ''track.track_is_disposed''"

definition TRACK_NO_STREAM_FOUND :: string where
  "TRACK_NO_STREAM_FOUND = ''track.no_stream_found''"

definition CONSTRAINT_FAILED :: string where
  "CONSTRAINT_FAILED = ''gum.constraint_failed''"

definition GENERAL :: string where
  "GENERAL = ''gum.general''"

definition TRACK_MUTE_CHANGED :: string where
  "TRACK_MUTE_CHANGED = ''track.trackMuteChanged''"

text \<open>\<^verbatim>\<open>MediaStreamTrack.getSettings()\<close>; an absent key is \<open>None\<close>.\<close>

record track_settings =
  settings_deviceId :: "string option"
  settings_facingMode :: "camera_facing_mode option"
  autoGainControl :: "bool option"
  channelCount :: "nat option"
  echoCancellation :: "bool option"
  noiseSuppression :: "bool option"

text \<open>
  The argument of \<^verbatim>\<open>applyConstraints\<close>. Its type \<^verbatim>\<open>IAudioConstraints\<close> names four optional
  keys, but the method spreads every own key the object has at run time over the settings,
  so the model gives it each key the settings have. For each key, \<open>None\<close> is a key the
  object does not have, \<open>Some None\<close> a key it has with the value \<^verbatim>\<open>undefined\<close>, and
  \<open>Some (Some v)\<close> a key with the value \<open>v\<close>.
\<close>

record audio_constraints =
  c_deviceId :: "string option option"
  c_facingMode :: "camera_facing_mode option option"
  c_autoGainControl :: "bool option option"
  c_channelCount :: "nat option option"
  c_echoCancellation :: "bool option option"
  c_noiseSuppression :: "bool option option"

text \<open>\<^verbatim>\<open>ITrackConstraints\<close>, reduced to the two keys the class reads.\<close>

record track_constraints =
  height_ideal :: "nat option"
  width_ideal :: "nat option"

text \<open>
  \<^verbatim>\<open>MediaStreamTrack\<close>. \<open>readyState\<close> is \<open>None\<close> on a browser that does not expose the
  property.
\<close>

record media_stream_track =
  kind :: media_type
  label :: string
  enabled :: bool
  readyState :: "string option"
  settings :: track_settings

record media_stream =
  stream_id :: nat
  active :: bool
  tracks :: "media_stream_track list"

text \<open>
  \<^verbatim>\<open>IStreamEffect\<close>. \<open>isEnabled\<close> sees the kind and the video type of the track it is asked
  about. \<open>has_isMuted\<close> and \<open>has_setMuted\<close> say whether the optional methods are present;
  \<open>effect_muted\<close> is the mute state those methods read and write, and \<open>effect_json\<close>
  is what \<^verbatim>\<open>JSON.stringify\<close> makes of the object. The callbacks of an effect are total: a
  callback that throws is outside the model.
\<close>

record effect =
  effect_id :: nat
  effect_json :: string
  isEnabled :: "media_type \<Rightarrow> video_type option \<Rightarrow> bool"
  has_isMuted :: bool
  has_setMuted :: bool
  effect_muted :: bool
  startEffect :: "media_stream option \<Rightarrow> media_stream"

text \<open>\<^verbatim>\<open>IStreamInfo\<close>\<close>

record stream_info =
  info_stream :: media_stream
  info_track :: media_stream_track
  info_videoType :: "video_type option"

text \<open>\<^verbatim>\<open>MediaDeviceInfo\<close>\<close>

record device_info =
  dev_deviceId :: string
  dev_kind :: string
  dev_label :: string

datatype constraint_value =
    TrackConstraints track_constraints
  | Settings track_settings

text \<open>The options object handed to \<^verbatim>\<open>RTCUtils.obtainAudioAndVideoPermissions\<close>.\<close>

record gum_options =
  opt_cameraDeviceId :: "string option"
  opt_micDeviceId :: "string option"
  opt_devices :: "media_type list"
  opt_effects :: "effect list"
  opt_facingMode :: "camera_facing_mode option"
  opt_constraints :: "media_type \<times> constraint_value"

text \<open>
  The fields of \<^verbatim>\<open>JitsiLocalTrack\<close> and of its base class \<^verbatim>\<open>JitsiTrack\<close> that the modelled
  methods read or write. \<open>conference\<close> is the reference to the owning conference, if any.
\<close>

record jitsi_local_track =
  mediaType :: media_type
  videoType :: "video_type option"
  stream :: "media_stream option"
  track :: "media_stream_track option"
  containers :: "nat list"
  conference :: "nat option"
  disposed :: bool
  setEffectInProgress :: bool
  constraints :: track_constraints
  facingMode :: "camera_facing_mode option"
  trackEnded :: bool
  deviceId :: string
  realDeviceId :: "string option"
  streamEffect :: "effect option"
  originalStream :: "media_stream option"
  stopStreamInProgress :: bool

text \<open>Every call that leaves the class, in the order it is made.\<close>

datatype event =
    RemoveLocalTrackFromPc
  | AddLocalTrackToPc
  | ObtainAudioAndVideoPermissions gum_options
  | StopMediaStream "media_stream option"
  | AttachMediaStream nat "media_stream option"
  | StartEffect nat
  | StopEffect nat
  | EffectSetMuted nat bool
  | UnregisterHandlers
  | SetTrackMuteStatus bool
  | SendPresence
  | SendBridgeVideoTypeMessage
  | Emit string

record world =
  events :: "event list"
  pc_calls :: nat
  gum_calls :: nat
  pc_attached :: bool
  signaled_muted :: "bool option"

text \<open>
  The environment. \<open>pc_remove n\<close> and \<open>pc_add n\<close> give the outcome of the call to
  \<^verbatim>\<open>conference._removeLocalTrackFromPc\<close> and \<^verbatim>\<open>conference._addLocalTrackToPc\<close> made after
  \<open>n\<close> earlier peer-connection calls (\<open>None\<close>: resolved, \<open>Some r\<close>: rejected with reason
  \<open>r\<close>); \<open>gum_outcome n opts\<close> is the outcome of the call to
  \<^verbatim>\<open>RTCUtils.obtainAudioAndVideoPermissions(opts)\<close> made after \<open>n\<close> earlier calls.
\<close>

record env =
  isReactNative :: bool
  doesVideoMuteByStreamRemove :: bool
  pc_remove :: "nat \<Rightarrow> string option"
  pc_add :: "nat \<Rightarrow> string option"
  gum_outcome :: "nat \<Rightarrow> gum_options \<Rightarrow> error + stream_info list"

type_synonym 'a outcome = "(error + 'a) \<times> jitsi_local_track \<times> world"

section \<open>Base class and collaborators\<close>

definition log :: "event \<Rightarrow> world \<Rightarrow> world" where
  "log ev w = w\<lparr>events := events w @ [ev]\<rparr>"

definition isAudioTrack :: "jitsi_local_track \<Rightarrow> bool" where
  \<comment> \<open>Modelled from the spec: \<^verbatim>\<open>JitsiTrack.isAudioTrack\<close>, the capability predicate on the kind.\<close>
  "isAudioTrack t = (mediaType t = AUDIO)"

definition isVideoTrack :: "jitsi_local_track \<Rightarrow> bool" where
  \<comment> \<open>Modelled from the spec: \<^verbatim>\<open>JitsiTrack.isVideoTrack\<close>, the capability predicate on the kind.\<close>
  "isVideoTrack t = (mediaType t = VIDEO)"

definition getType :: "jitsi_local_track \<Rightarrow> media_type" where
  \<comment> \<open>Modelled from the spec: \<^verbatim>\<open>JitsiTrack.getType\<close>, the media kind of the track.\<close>
  "getType t = mediaType t"

definition isActive :: "jitsi_local_track \<Rightarrow> bool" where
  \<comment> \<open>Modelled from the spec: \<^verbatim>\<open>JitsiTrack.isActive\<close>, whether the capture handle is live.\<close>
  "isActive t = (case stream t of None \<Rightarrow> False | Some s \<Rightarrow> active s)"

definition setStream :: "media_stream option \<Rightarrow> jitsi_local_track \<Rightarrow> jitsi_local_track" where
  \<comment> \<open>Modelled from the spec: \<^verbatim>\<open>JitsiTrack._setStream\<close>, which stores the capture handle.\<close>
  "setStream s t = t\<lparr>stream := s\<rparr>"

definition getTracks0 :: "media_stream option \<Rightarrow> media_stream_track option" where
  \<comment> \<open>\<^verbatim>\<open>stream ? stream.getTracks()[0] : null\<close>; index 0 of an empty array is undefined.\<close>
  "getTracks0 s = (case s of None \<Rightarrow> None
                   | Some m \<Rightarrow> (case tracks m of [] \<Rightarrow> None | x # _ \<Rightarrow> Some x))"

definition stopMediaStream :: "media_stream \<Rightarrow> media_stream" where
  \<comment> \<open>Modelled from the spec: \<^verbatim>\<open>RTCUtils.stopMediaStream\<close>, the capture release; it ends every
      track of the handle and never throws.\<close>
  "stopMediaStream s =
     s\<lparr>active := False, tracks := map (\<lambda>tr. tr\<lparr>readyState := Some ''ended''\<rparr>) (tracks s)\<rparr>"

definition conference_removeLocalTrackFromPc :: "env \<Rightarrow> world \<Rightarrow> string option \<times> world" where
  \<comment> \<open>Modelled from the spec: the Transport Attachment Bridge's \<^verbatim>\<open>detach(track)\<close>, which may
      fail.\<close>
  "conference_removeLocalTrackFromPc e w =
     (let w1 = log RemoveLocalTrackFromPc (w\<lparr>pc_calls := Suc (pc_calls w)\<rparr>)
      in case pc_remove e (pc_calls w) of
           None \<Rightarrow> (None, w1\<lparr>pc_attached := False\<rparr>)
         | Some r \<Rightarrow> (Some r, w1))"

definition conference_addLocalTrackToPc :: "env \<Rightarrow> world \<Rightarrow> string option \<times> world" where
  \<comment> \<open>Modelled from the spec: the Transport Attachment Bridge's \<^verbatim>\<open>attach(track)\<close>, which may
      fail.\<close>
  "conference_addLocalTrackToPc e w =
     (let w1 = log AddLocalTrackToPc (w\<lparr>pc_calls := Suc (pc_calls w)\<rparr>)
      in case pc_add e (pc_calls w) of
           None \<Rightarrow> (None, w1\<lparr>pc_attached := True\<rparr>)
         | Some r \<Rightarrow> (Some r, w1))"

definition conference_setTrackMuteStatus :: "bool \<Rightarrow> world \<Rightarrow> bool \<times> world" where
  \<comment> \<open>Modelled from the spec: the Transport Attachment Bridge's
      \<^verbatim>\<open>reportMuteStatus(track, muted)\<close>, which reports whether this changed anything.\<close>
  "conference_setTrackMuteStatus m w =
     (signaled_muted w \<noteq> Some m, log (SetTrackMuteStatus m) (w\<lparr>signaled_muted := Some m\<rparr>))"

definition obtainAudioAndVideoPermissions ::
  "env \<Rightarrow> gum_options \<Rightarrow> world \<Rightarrow> (error + stream_info list) \<times> world" where
  \<comment> \<open>Modelled from the spec: the capture acquisition \<^verbatim>\<open>obtainCapture(options)\<close>, which may
      fail.\<close>
  "obtainAudioAndVideoPermissions e opts w =
     (gum_outcome e (gum_calls w) opts,
      log (ObtainAudioAndVideoPermissions opts) (w\<lparr>gum_calls := Suc (gum_calls w)\<rparr>))"

fun attachContainers :: "nat list \<Rightarrow> media_stream option \<Rightarrow> world \<Rightarrow> world" where
  "attachContainers [] s w = w"
| "attachContainers (c # cs) s w = attachContainers cs s (log (AttachMediaStream c s) w)"

section \<open>Effect pipeline\<close>

definition startStreamEffect :: "effect \<Rightarrow> jitsi_local_track \<times> world \<Rightarrow> jitsi_local_track \<times> world" where
  "startStreamEffect ef = (\<lambda>(t, w).
     (let t1 = t\<lparr>streamEffect := Some ef, originalStream := stream t\<rparr>;
          t2 = setStream (Some (startEffect ef (originalStream t1))) t1
      in (t2\<lparr>track := getTracks0 (stream t2)\<rparr>, log (StartEffect (effect_id ef)) w)))"

definition stopStreamEffect :: "jitsi_local_track \<times> world \<Rightarrow> jitsi_local_track \<times> world" where
  "stopStreamEffect = (\<lambda>(t, w).
     (case streamEffect t of
        None \<Rightarrow> (t, w)
      | Some ef \<Rightarrow>
          (let t1 = setStream (originalStream t) t;
               t2 = t1\<lparr>originalStream := None\<rparr>
           in (t2\<lparr>track := getTracks0 (stream t2)\<rparr>, log (StopEffect (effect_id ef)) w))))"

definition switchStreamEffect ::
  "effect option \<Rightarrow> jitsi_local_track \<times> world \<Rightarrow> jitsi_local_track \<times> world" where
  "switchStreamEffect ef = (\<lambda>(t, w).
     (let (t1, w1) = (case streamEffect t of
                        None \<Rightarrow> (t, w)
                      | Some _ \<Rightarrow> (let (t', w') = stopStreamEffect (t, w)
                                   in (t'\<lparr>streamEffect := None\<rparr>, w')))
      in case ef of None \<Rightarrow> (t1, w1) | Some e \<Rightarrow> startStreamEffect e (t1, w1)))"

definition isMuted :: "jitsi_local_track \<Rightarrow> bool" where
  "isMuted t =
     (if stream t = None then True
      else if isVideoTrack t \<and> \<not> isActive t then True
      else (case streamEffect t of
              Some ef \<Rightarrow> if has_isMuted ef then effect_muted ef
                         else (case track t of None \<Rightarrow> True | Some tr \<Rightarrow> \<not> enabled tr)
            | None \<Rightarrow> (case track t of None \<Rightarrow> True | Some tr \<Rightarrow> \<not> enabled tr)))"

definition stopStream :: "jitsi_local_track \<times> world \<Rightarrow> jitsi_local_track \<times> world" where
  "stopStream = (\<lambda>(t, w).
     (t\<lparr>stopStreamInProgress := False,
        stream := map_option stopMediaStream (stream t),
        track := map_option (\<lambda>tr. tr\<lparr>readyState := Some ''ended''\<rparr>) (track t)\<rparr>,
      log (StopMediaStream (stream t)) w))"

section \<open>Mute and unmute\<close>

definition getDeviceId :: "jitsi_local_track \<Rightarrow> string" where
  \<comment> \<open>\<^verbatim>\<open>this._realDeviceId || this.deviceId\<close>: the empty string is falsy.\<close>
  "getDeviceId t =
     (case realDeviceId t of
        None \<Rightarrow> deviceId t
      | Some d \<Rightarrow> if d = [] then deviceId t else d)"

definition getCameraFacingMode :: "jitsi_local_track \<Rightarrow> error + camera_facing_mode option" where
  "getCameraFacingMode t =
     (if isVideoTrack t \<and> videoType t = Some CAMERA then
        (case track t of
           None \<Rightarrow> Inl TypeError
         | Some tr \<Rightarrow>
             (case settings_facingMode (settings tr) of
                Some f \<Rightarrow> Inr (Some f)
              | None \<Rightarrow> (case facingMode t of Some f \<Rightarrow> Inr (Some f) | None \<Rightarrow> Inr (Some USER))))
      else Inr None)"

definition removeStreamFromConferenceAsMute ::
  "env \<Rightarrow> jitsi_local_track \<Rightarrow> world \<Rightarrow> error option \<times> world" where
  "removeStreamFromConferenceAsMute e t w =
     (if conference t = None then (None, w)
      else (case conference_removeLocalTrackFromPc e w of
              (None, w1) \<Rightarrow> (None, w1)
            | (Some r, w1) \<Rightarrow> (Some (Error r), w1)))"

definition addStreamToConferenceAsUnmute ::
  "env \<Rightarrow> jitsi_local_track \<Rightarrow> world \<Rightarrow> error option \<times> world" where
  "addStreamToConferenceAsUnmute e t w =
     (if conference t = None then (None, w)
      else (case conference_addLocalTrackToPc e w of
              (None, w1) \<Rightarrow> (None, w1)
            | (Some r, w1) \<Rightarrow> (Some (Error r), w1)))"

definition sendMuteStatus :: "bool \<Rightarrow> jitsi_local_track \<Rightarrow> world \<Rightarrow> world" where
  "sendMuteStatus m t w =
     (if conference t = None then w
      else (let (changed, w1) = conference_setTrackMuteStatus m w
            in if changed then log SendPresence w1 else w1))"

text \<open>
  The soft path: toggle the effect's own mute state, or the capture handle's enabled flag.
  \<^verbatim>\<open>this.track\<close> is the object \<^verbatim>\<open>this.stream.getTracks()[0]\<close> (the class assigns it so
  whenever it starts or stops an effect), so the flag written through \<^verbatim>\<open>this.track\<close> is
  also read through the stream: the model writes it in both places.
\<close>

definition updateTrack0 ::
  "(media_stream_track \<Rightarrow> media_stream_track) \<Rightarrow> media_stream \<Rightarrow> media_stream" where
  "updateTrack0 f s = s\<lparr>tracks := (case tracks s of [] \<Rightarrow> [] | x # xs \<Rightarrow> f x # xs)\<rparr>"

definition setEnabled :: "bool \<Rightarrow> jitsi_local_track \<Rightarrow> jitsi_local_track" where
  \<comment> \<open>\<^verbatim>\<open>if (this.track) { this.track.enabled = b }\<close>\<close>
  "setEnabled b t =
     (case track t of
        None \<Rightarrow> t
      | Some tr \<Rightarrow> t\<lparr>track := Some (tr\<lparr>enabled := b\<rparr>),
                     stream := map_option (updateTrack0 (\<lambda>x. x\<lparr>enabled := b\<rparr>)) (stream t)\<rparr>)"

definition softMute :: "bool \<Rightarrow> jitsi_local_track \<times> world \<Rightarrow> jitsi_local_track \<times> world" where
  "softMute muted = (\<lambda>(t, w).
     (case streamEffect t of
        Some ef \<Rightarrow>
          if has_setMuted ef
          then (t\<lparr>streamEffect := Some (ef\<lparr>effect_muted := muted\<rparr>)\<rparr>,
                log (EffectSetMuted (effect_id ef) muted) w)
          else (setEnabled (\<not> muted) t, w)
      | None \<Rightarrow> (setEnabled (\<not> muted) t, w)))"

text \<open>The hard mute path: detach from the conference, then release the capture handle.\<close>

definition hardMute :: "env \<Rightarrow> jitsi_local_track \<times> world \<Rightarrow> unit outcome" where
  "hardMute e = (\<lambda>(t, w).
     (case removeStreamFromConferenceAsMute e t w of
        (Some err, w1) \<Rightarrow> (Inl err, t, w1)
      | (None, w1) \<Rightarrow>
          (let (t2, w2) = (if streamEffect t \<noteq> None then stopStreamEffect (t, w1) else (t, w1));
               (t3, w3) = stopStream (t2, log UnregisterHandlers w2)
           in (Inr (), setStream None t3, w3))))"

definition unmuteStreamOptions :: "jitsi_local_track \<Rightarrow> error + gum_options" where
  "unmuteStreamOptions t =
     (if videoType t = Some CAMERA then
        (case getCameraFacingMode t of
           Inl err \<Rightarrow> Inl err
         | Inr fm \<Rightarrow>
             Inr \<lparr>opt_cameraDeviceId = Some (getDeviceId t),
                  opt_micDeviceId = None,
                  opt_devices = [VIDEO],
                  opt_effects = (case streamEffect t of Some ef \<Rightarrow> [ef] | None \<Rightarrow> []),
                  opt_facingMode = fm,
                  opt_constraints = (VIDEO, TrackConstraints (constraints t))\<rparr>)
      else
        Inr \<lparr>opt_cameraDeviceId = None,
             opt_micDeviceId = None,
             opt_devices = [MediaType_DESKTOP],
             opt_effects = [],
             opt_facingMode = None,
             opt_constraints = (VIDEO, TrackConstraints (constraints t))\<rparr>)"

text \<open>The continuation of the re-acquisition: adopt the stream of the track's own kind.\<close>

definition adoptStreams ::
  "env \<Rightarrow> stream_info list \<Rightarrow> jitsi_local_track \<times> world \<Rightarrow> unit outcome" where
  "adoptStreams e streamsInfo = (\<lambda>(t, w).
     (case find (\<lambda>info. kind (info_track info) = getType t) streamsInfo of
        None \<Rightarrow> (Inl (JitsiTrackError TRACK_NO_STREAM_FOUND), t, w)
      | Some streamInfo \<Rightarrow>
          (let t1 = (setStream (Some (info_stream streamInfo)) t)
                      \<lparr>track := Some (info_track streamInfo)\<rparr>;
               t2 = (if videoType t1 \<noteq> info_videoType streamInfo
                     then t1\<lparr>videoType := info_videoType streamInfo\<rparr> else t1);
               (t3, w3) = (case streamEffect t2 of
                             Some ef \<Rightarrow> startStreamEffect ef (t2, w)
                           | None \<Rightarrow> (t2, w));
               w4 = attachContainers (containers t3) (stream t3) w3
           in (case addStreamToConferenceAsUnmute e t3 w4 of
                 (Some err, w5) \<Rightarrow> (Inl err, t3, w5)
               | (None, w5) \<Rightarrow> (Inr (), t3, w5)))))"

definition hardUnmute :: "env \<Rightarrow> jitsi_local_track \<times> world \<Rightarrow> unit outcome" where
  "hardUnmute e = (\<lambda>(t, w).
     (case unmuteStreamOptions t of
        Inl err \<Rightarrow> (Inl err, t, w)
      | Inr opts \<Rightarrow>
          (case obtainAudioAndVideoPermissions e opts w of
             (Inl err, w1) \<Rightarrow> (Inl err, t, w1)
           | (Inr streamsInfo, w1) \<Rightarrow> adoptStreams e streamsInfo (t, w1))))"

definition muteByStreamRemove :: "env \<Rightarrow> jitsi_local_track \<Rightarrow> bool" where
  \<comment> \<open>The local constant \<^verbatim>\<open>doesVideoMuteByStreamRemove\<close> of \<^verbatim>\<open>_setMuted\<close>.\<close>
  "muteByStreamRemove e t =
     (if isReactNative e then videoType t = Some DESKTOP else doesVideoMuteByStreamRemove e)"

definition muteCompleted :: "bool \<Rightarrow> jitsi_local_track \<Rightarrow> world \<Rightarrow> world" where
  \<comment> \<open>The final continuation of \<^verbatim>\<open>_setMuted\<close>.\<close>
  "muteCompleted muted t w =
     (let w1 = sendMuteStatus muted t w;
          w2 = (if isVideoTrack t \<and> conference t \<noteq> None
                then log SendBridgeVideoTypeMessage w1 else w1)
      in log (Emit TRACK_MUTE_CHANGED) w2)"

definition setMuted :: "env \<Rightarrow> bool \<Rightarrow> jitsi_local_track \<times> world \<Rightarrow> unit outcome" where
  "setMuted e muted = (\<lambda>(t, w).
     if isMuted t = muted \<and> videoType t \<noteq> Some DESKTOP then (Inr (), t, w)
     else if disposed t then (Inl (JitsiTrackError TRACK_IS_DISPOSED), t, w)
     else
       (case (if isAudioTrack t \<or> \<not> muteByStreamRemove e t
              then (let (t1, w1) = softMute muted (t, w) in (Inr (), t1, w1))
              else if muted then hardMute e (t, w)
              else hardUnmute e (t, w)) of
          (Inl err, t1, w1) \<Rightarrow> (Inl err, t1, w1)
        | (Inr _, t1, w1) \<Rightarrow> (Inr (), t1, muteCompleted muted t1 w1)))"

section \<open>Mute transition queue\<close>

text \<open>
  A promise is the computation that settles it, started in the state the track and its
  collaborators are in when the chain starts to run. \<open>promise_then p f g\<close> is
  \<^verbatim>\<open>p.then(f, g)\<close>: once \<open>p\<close> has settled, \<open>f\<close> runs on its value if it was fulfilled and
  \<open>g\<close> on its reason if it was rejected, in the state \<open>p\<close> left behind.
\<close>

type_synonym 'a promise = "jitsi_local_track \<times> world \<Rightarrow> 'a outcome"

definition promise_resolve :: "unit promise" where
  "promise_resolve = (\<lambda>(t, w). (Inr (), t, w))"

definition promise_then ::
  "'a promise \<Rightarrow> ('a \<Rightarrow> 'b promise) \<Rightarrow> (error \<Rightarrow> 'b promise) \<Rightarrow> 'b promise" where
  "promise_then p onFulfilled onRejected = (\<lambda>s.
     (case p s of
        (Inr v, t, w) \<Rightarrow> onFulfilled v (t, w)
      | (Inl err, t, w) \<Rightarrow> onRejected err (t, w)))"

text \<open>
  \<^verbatim>\<open>_queueSetMuted\<close> takes the value of \<^verbatim>\<open>_prevSetMuted\<close> and returns the promise it stores
  there and hands to its caller. \<^verbatim>\<open>setMuted\<close> is \<^verbatim>\<open>_setMuted\<close> bound to \<open>muted\<close>: it ignores
  the value or reason it is called with.
\<close>

definition queueSetMuted :: "env \<Rightarrow> bool \<Rightarrow> unit promise \<Rightarrow> unit promise" where
  "queueSetMuted e muted prevSetMuted =
     promise_then prevSetMuted (\<lambda>_. setMuted e muted) (\<lambda>_. setMuted e muted)"

definition mute :: "env \<Rightarrow> unit promise \<Rightarrow> unit promise" where
  "mute e prevSetMuted = queueSetMuted e True prevSetMuted"

definition unmute :: "env \<Rightarrow> unit promise \<Rightarrow> unit promise" where
  "unmute e prevSetMuted = queueSetMuted e False prevSetMuted"

text \<open>
  The promises returned for a sequence of submissions, in submission order, starting from
  the \<^verbatim>\<open>_prevSetMuted\<close> the constructor stores.
\<close>

fun submissions :: "env \<Rightarrow> unit promise \<Rightarrow> bool list \<Rightarrow> unit promise list" where
  "submissions e prevSetMuted [] = []"
| "submissions e prevSetMuted (m # ms) =
     queueSetMuted e m prevSetMuted # submissions e (queueSetMuted e m prevSetMuted) ms"

text \<open>The reference behaviour: the transitions run back to back, each to completion.\<close>

fun runInOrder :: "env \<Rightarrow> bool list \<Rightarrow> jitsi_local_track \<times> world \<Rightarrow> unit outcome list" where
  "runInOrder e [] s = []"
| "runInOrder e (m # ms) s =
     setMuted e m s # runInOrder e ms (snd (setMuted e m s))"

section \<open>setEffect\<close>

text \<open>
  \<^verbatim>\<open>setEffect\<close> runs its guards and, when no conference is attached, the whole switch in its
  synchronous part. With a conference it raises \<^verbatim>\<open>_setEffectInProgress\<close>, asks the conference
  to remove the track and returns a pending promise: \<open>setEffect_begin\<close> is that synchronous
  part (\<open>Inl\<close>: the promise is already settled; \<open>Inr\<close>: the switch is pending), and
  \<open>setEffect_resume\<close> is the chain of continuations that settles the pending promise, the
  outcome of the removal first. The switch between the two conference calls consists of
  effect callbacks, which the model takes to return: of the steps of the chain, the removal
  and the re-addition are the ones that can reject.
\<close>

definition attachContainersIfVideo :: "jitsi_local_track \<Rightarrow> world \<Rightarrow> world" where
  "attachContainersIfVideo t w =
     (if isVideoTrack t then attachContainers (containers t) (stream t) w else w)"

definition setEffect_begin ::
  "effect option \<Rightarrow> jitsi_local_track \<times> world \<Rightarrow> unit outcome + jitsi_local_track \<times> world" where
  "setEffect_begin ef = (\<lambda>(t, w).
     if streamEffect t = None \<and> ef = None then Inl (Inr (), t, w)
     else if (case ef of None \<Rightarrow> False | Some x \<Rightarrow> \<not> isEnabled x (mediaType t) (videoType t))
       then Inl (Inl (Error ''Incompatible effect instance!''), t, w)
     else if setEffectInProgress t
       then Inl (Inl (Error ''setEffect already in progress!''), t, w)
     else if isMuted t \<and> \<not> isAudioTrack t
       then Inl (Inr (), t\<lparr>streamEffect := ef\<rparr>, w)
     else if conference t = None
       then (let (t1, w1) = switchStreamEffect ef (t, w)
             in Inl (Inr (), t1, attachContainersIfVideo t1 w1))
     else Inr (t\<lparr>setEffectInProgress := True\<rparr>, w))"

definition setEffect_catch :: "error \<Rightarrow> jitsi_local_track \<times> world \<Rightarrow> unit outcome" where
  \<comment> \<open>The \<^verbatim>\<open>.catch\<close> handler of the chain: clean up the effect and rethrow.\<close>
  "setEffect_catch err = (\<lambda>(t, w).
     (let (t1, w1) = switchStreamEffect None (t\<lparr>setEffectInProgress := False\<rparr>, w)
      in (Inl err, t1, w1)))"

definition setEffect_resume ::
  "env \<Rightarrow> effect option \<Rightarrow> jitsi_local_track \<times> world \<Rightarrow> unit outcome" where
  "setEffect_resume e ef = (\<lambda>(t, w).
     (case conference_removeLocalTrackFromPc e w of
        (Some r, w1) \<Rightarrow> setEffect_catch (Rejection r) (t, w1)
      | (None, w1) \<Rightarrow>
          (let (t2, w2) = switchStreamEffect ef (t, w1);
               w3 = attachContainersIfVideo t2 w2
           in (case conference_addLocalTrackToPc e w3 of
                 (Some r, w4) \<Rightarrow> setEffect_catch (Rejection r) (t2, w4)
               | (None, w4) \<Rightarrow> (Inr (), t2\<lparr>setEffectInProgress := False\<rparr>, w4)))))"

definition setEffect :: "env \<Rightarrow> effect option \<Rightarrow> jitsi_local_track \<times> world \<Rightarrow> unit outcome" where
  "setEffect e ef s =
     (case setEffect_begin ef s of
        Inl out \<Rightarrow> out
      | Inr s1 \<Rightarrow> setEffect_resume e ef s1)"

section \<open>applyConstraints\<close>

definition media_type_name :: "media_type \<Rightarrow> string" where
  "media_type_name m = (case m of AUDIO \<Rightarrow> ''audio'' | VIDEO \<Rightarrow> ''video''
                        | MediaType_DESKTOP \<Rightarrow> ''desktop'')"

definition override :: "'a option \<Rightarrow> 'a option option \<Rightarrow> 'a option" where
  \<comment> \<open>One key of \<^verbatim>\<open>{ ...initialSettings, ...constraints }\<close>: a key the constraints have
      wins, also when its value is \<^verbatim>\<open>undefined\<close>.\<close>
  "override old new = (case new of None \<Rightarrow> old | Some v \<Rightarrow> v)"

definition constraintsToApply :: "track_settings \<Rightarrow> audio_constraints \<Rightarrow> track_settings" where
  "constraintsToApply initialSettings c =
     initialSettings
       \<lparr>settings_deviceId := override (settings_deviceId initialSettings) (c_deviceId c),
        settings_facingMode := override (settings_facingMode initialSettings) (c_facingMode c),
        autoGainControl := override (autoGainControl initialSettings) (c_autoGainControl c),
        channelCount := override (channelCount initialSettings) (c_channelCount c),
        echoCancellation := override (echoCancellation initialSettings) (c_echoCancellation c),
        noiseSuppression := override (noiseSuppression initialSettings) (c_noiseSuppression c)\<rparr>"

definition constraintOptions ::
  "media_type \<Rightarrow> track_settings \<Rightarrow> string option \<Rightarrow> gum_options" where
  \<comment> \<open>The options of both acquisitions of \<^verbatim>\<open>applyConstraints\<close>: the constraints under the key
      of the media type, and the device id under \<^verbatim>\<open>micDeviceId\<close> or \<^verbatim>\<open>cameraDeviceId\<close>.\<close>
  "constraintOptions m cs dev =
     \<lparr>opt_cameraDeviceId = (if m = AUDIO then None else dev),
      opt_micDeviceId = (if m = AUDIO then dev else None),
      opt_devices = [m],
      opt_effects = [],
      opt_facingMode = None,
      opt_constraints = (m, Settings cs)\<rparr>"

text \<open>
  The \<^verbatim>\<open>try\<close> block and its \<^verbatim>\<open>catch\<close>: the first acquisition asks for the merged
  constraints; when it is rejected or returns no stream, the second asks for the initial
  settings, and its rejection is not caught. The result is the first element of the list
  the successful acquisition returned, if any: an \<^verbatim>\<open>IStreamInfo\<close> always carries its stream,
  so \<^verbatim>\<open>!mediaStreamData?.stream\<close> holds exactly when the list was empty.
\<close>

definition reacquire ::
  "env \<Rightarrow> media_type \<Rightarrow> track_settings \<Rightarrow> track_settings \<Rightarrow> world
     \<Rightarrow> (error + stream_info option) \<times> world" where
  "reacquire e m initialSettings toApply w =
     (let (r1, w1) = obtainAudioAndVideoPermissions e
                       (constraintOptions m toApply (settings_deviceId toApply)) w
      in (case r1 of
            Inr (mediaStreamData # _) \<Rightarrow> (Inr (Some mediaStreamData), w1)
          | _ \<Rightarrow>
              (let (r2, w2) = obtainAudioAndVideoPermissions e
                                (constraintOptions m initialSettings (settings_deviceId toApply)) w1
               in (case r2 of
                     Inl err \<Rightarrow> (Inl err, w2)
                   | Inr [] \<Rightarrow> (Inr None, w2)
                   | Inr (mediaStreamData # _) \<Rightarrow> (Inr (Some mediaStreamData), w2)))))"

text \<open>
  \<^verbatim>\<open>applyConstraints\<close>. Reading a property of a null conference or of a null track throws
  a \<^verbatim>\<open>TypeError\<close>, which rejects the promise of the \<^verbatim>\<open>async\<close> method.
\<close>

definition applyConstraints ::
  "env \<Rightarrow> audio_constraints \<Rightarrow> jitsi_local_track \<times> world \<Rightarrow> unit outcome" where
  "applyConstraints e c = (\<lambda>(t, w).
     if \<not> isAudioTrack t
     then (Inl (Error (''Media '' @ media_type_name (getType t)
                        @ '' is not supported, track must be audio'')), t, w)
     else
       (let hasAudioMixEffect = (case streamEffect t of None \<Rightarrow> False | Some ef \<Rightarrow> has_setMuted ef)
        in if streamEffect t \<noteq> None \<and> \<not> hasAudioMixEffect
           then (Inl (Error (''Cannot apply constraints while the effect ''
                              @ (case streamEffect t of None \<Rightarrow> [] | Some ef \<Rightarrow> effect_json ef)
                              @ '' is active'')), t, w)
           else if conference t = None then (Inl TypeError, t, w)
           else
             (case conference_removeLocalTrackFromPc e w of
                (Some r, w1) \<Rightarrow> (Inl (Rejection r), t, w1)
              | (None, w1) \<Rightarrow>
                  (let (t2, w2) = (if hasAudioMixEffect then stopStreamEffect (t, w1) else (t, w1));
                       (t3, w3) = stopStream (t2, w2)
                   in (case track t3 of
                         None \<Rightarrow> (Inl TypeError, t3, w3)
                       | Some tr \<Rightarrow>
                           (let initialSettings = settings tr
                            in (case reacquire e (getType t3) initialSettings
                                       (constraintsToApply initialSettings c) w3 of
                                  (Inl err, w4) \<Rightarrow> (Inl err, t3, w4)
                                | (Inr None, w4) \<Rightarrow> (Inl (JitsiTrackError GENERAL), t3, w4)
                                | (Inr (Some mediaStreamData), w4) \<Rightarrow>
                                    (let t5 = (setStream (Some (info_stream mediaStreamData)) t3)
                                                \<lparr>track := Some (info_track mediaStreamData)\<rparr>;
                                         (t6, w6) = (case streamEffect t5 of
                                                       Some ef \<Rightarrow>
                                                         if hasAudioMixEffect
                                                         then startStreamEffect ef (t5, w4)
                                                         else (t5, w4)
                                                     | None \<Rightarrow> (t5, w4))
                                     in (case conference_addLocalTrackToPc e w6 of
                                           (Some r, w7) \<Rightarrow> (Inl (Rejection r), t6, w7)
                                         | (None, w7) \<Rightarrow> (Inr (), t6, w7))))))))))"

section \<open>Device resolution watcher\<close>

fun replace_first :: "string \<Rightarrow> string \<Rightarrow> string \<Rightarrow> string" where
  \<comment> \<open>\<^verbatim>\<open>String.prototype.replace\<close> with a string pattern: the first occurrence only.\<close>
  "replace_first pat rep [] = (if pat = [] then rep else [])"
| "replace_first pat rep (c # cs) =
     (if take (length pat) (c # cs) = pat then rep @ drop (length pat) (c # cs)
      else c # replace_first pat rep cs)"

definition setRealDeviceIdFromDeviceList ::
  "device_info list \<Rightarrow> jitsi_local_track \<Rightarrow> error + jitsi_local_track" where
  "setRealDeviceIdFromDeviceList devices t =
     (case track t of
        None \<Rightarrow> Inl TypeError
      | Some tr \<Rightarrow>
          (let kind_input = media_type_name (kind tr) @ ''input'';
               device = find (\<lambda>d. dev_kind d = kind_input \<and> dev_label d = label tr
                                   \<and> dev_deviceId d = deviceId t) devices;
               device = (if device = None \<and> realDeviceId t = Some ''default''
                         then (let lbl = replace_first ''Default - '' [] (label tr)
                               in find (\<lambda>d. dev_kind d = kind_input \<and> dev_label d = lbl) devices)
                         else device)
           in (case device of
                 Some d \<Rightarrow> Inr (t\<lparr>realDeviceId := Some (dev_deviceId d)\<rparr>)
               | None \<Rightarrow> Inr (t\<lparr>realDeviceId := None\<rparr>))))"

definition onDeviceListWillChange ::
  "device_info list \<Rightarrow> jitsi_local_track \<Rightarrow> error + jitsi_local_track" where
  "onDeviceListWillChange devices t =
     (let oldRealDeviceId = realDeviceId t
      in (case setRealDeviceIdFromDeviceList devices t of
            Inl err \<Rightarrow> Inl err
          | Inr t1 \<Rightarrow>
              (case track t1 of
                 None \<Rightarrow> Inl TypeError
               | Some tr \<Rightarrow>
                   if (readyState tr = None
                       \<and> realDeviceId t1 \<noteq> None
                       \<and> find (\<lambda>d. Some (dev_deviceId d) = realDeviceId t1) devices = None)
                      \<or> (oldRealDeviceId \<noteq> None \<and> realDeviceId t1 = None)
                   then Inr (t1\<lparr>trackEnded := True\<rparr>)
                   else Inr t1)))"

text \<open>
  The listener as the event emitter runs it: a listener that throws has changed nothing,
  and the next notification is delivered all the same.
\<close>

definition deviceListWillChange :: "jitsi_local_track \<Rightarrow> device_info list \<Rightarrow> jitsi_local_track" where
  "deviceListWillChange t devices =
     (case onDeviceListWillChange devices t of Inl _ \<Rightarrow> t | Inr t1 \<Rightarrow> t1)"

text \<open>
  The capture handle of the track, below the effect if one runs. A started effect keeps
  the handle in \<^verbatim>\<open>_originalStream\<close> and puts its output in \<^verbatim>\<open>stream\<close>; with no effect, or
  with an effect that is recorded but was never started (\<^verbatim>\<open>_originalStream\<close> is empty), the
  handle is \<^verbatim>\<open>stream\<close> itself.
\<close>

definition preEffectStream :: "jitsi_local_track \<Rightarrow> media_stream option" where
  "preEffectStream t =
     (case streamEffect t of
        None \<Rightarrow> stream t
      | Some _ \<Rightarrow> (case originalStream t of None \<Rightarrow> stream t | Some s \<Rightarrow> Some s))"

definition effectStarted :: "jitsi_local_track \<Rightarrow> bool" where
  \<comment> \<open>The recorded effect, if any, has been started: its input is kept.\<close>
  "effectStarted t = (streamEffect t = None \<or> originalStream t \<noteq> None)"

section \<open>Example tracks, effects and environments\<close>

definition mic_settings :: track_settings where
  "mic_settings =
     \<lparr>settings_deviceId = Some ''default'', settings_facingMode = None,
      autoGainControl = Some True, channelCount = Some 1,
      echoCancellation = Some True, noiseSuppression = Some False\<rparr>"

definition mic :: media_stream_track where
  "mic = \<lparr>kind = AUDIO, label = ''Default - Mic A'', enabled = True,
          readyState = Some ''live'', settings = mic_settings\<rparr>"

definition mic_stream :: media_stream where
  "mic_stream = \<lparr>stream_id = 1, active = True, tracks = [mic]\<rparr>"

definition camera_settings :: track_settings where
  "camera_settings =
     \<lparr>settings_deviceId = Some ''cam-1'', settings_facingMode = Some USER,
      autoGainControl = None, channelCount = None,
      echoCancellation = None, noiseSuppression = None\<rparr>"

definition camera :: media_stream_track where
  "camera = \<lparr>kind = VIDEO, label = ''Front camera'', enabled = True,
             readyState = Some ''live'', settings = camera_settings\<rparr>"

definition camera_stream :: "nat \<Rightarrow> media_stream" where
  "camera_stream n = \<lparr>stream_id = n, active = True, tracks = [camera]\<rparr>"

definition audio_track :: jitsi_local_track where
  "audio_track =
     \<lparr>mediaType = AUDIO, videoType = None, stream = Some mic_stream, track = Some mic,
      containers = [], conference = Some 0, disposed = False, setEffectInProgress = False,
      constraints = \<lparr>height_ideal = None, width_ideal = None\<rparr>, facingMode = None,
      trackEnded = False, deviceId = ''default'', realDeviceId = Some ''default'',
      streamEffect = None, originalStream = None, stopStreamInProgress = False\<rparr>"

definition video_track :: jitsi_local_track where
  "video_track =
     \<lparr>mediaType = VIDEO, videoType = Some CAMERA, stream = Some (camera_stream 2),
      track = Some camera, containers = [7], conference = Some 0, disposed = False,
      setEffectInProgress = False,
      constraints = \<lparr>height_ideal = Some 720, width_ideal = Some 1280\<rparr>, facingMode = None,
      trackEnded = False, deviceId = ''cam-1'', realDeviceId = Some ''cam-1'',
      streamEffect = None, originalStream = None, stopStreamInProgress = False\<rparr>"

definition blur :: effect where
  "blur = \<lparr>effect_id = 1, effect_json = ''{}'', isEnabled = (\<lambda>m v. m = VIDEO \<and> v = Some CAMERA),
           has_isMuted = False, has_setMuted = False, effect_muted = False,
           startEffect = (\<lambda>s. \<lparr>stream_id = 100, active = True,
                                 tracks = (case s of None \<Rightarrow> [] | Some m \<Rightarrow> tracks m)\<rparr>)\<rparr>"

definition mixer :: effect where
  "mixer = \<lparr>effect_id = 2, effect_json = ''{}'', isEnabled = (\<lambda>m v. m = AUDIO),
            has_isMuted = True, has_setMuted = True, effect_muted = False,
            startEffect = (\<lambda>s. \<lparr>stream_id = 200, active = True,
                                  tracks = (case s of None \<Rightarrow> [] | Some m \<Rightarrow> tracks m)\<rparr>)\<rparr>"

definition idle :: world where
  "idle = \<lparr>events = [], pc_calls = 0, gum_calls = 0, pc_attached = True,
           signaled_muted = None\<rparr>"

definition reliable :: env where
  "reliable =
     \<lparr>isReactNative = False, doesVideoMuteByStreamRemove = True,
      pc_remove = (\<lambda>n. None), pc_add = (\<lambda>n. None),
      gum_outcome = (\<lambda>n opts. Inr [\<lparr>info_stream = camera_stream (3 + n), info_track = camera,
                                     info_videoType = Some CAMERA\<rparr>])\<rparr>"

text \<open>An environment whose first peer-connection call and first acquisition are rejected.\<close>

definition flaky :: env where
  "flaky =
     \<lparr>isReactNative = False, doesVideoMuteByStreamRemove = True,
      pc_remove = (\<lambda>n. if n = 0 then Some ''busy'' else None), pc_add = (\<lambda>n. None),
      gum_outcome = (\<lambda>n opts. if n = 0 then Inl (JitsiTrackError CONSTRAINT_FAILED)
                               else Inr [\<lparr>info_stream = mic_stream, info_track = mic,
                                          info_videoType = None\<rparr>])\<rparr>"

text \<open>An environment whose acquisitions only ever return a microphone.\<close>

definition mic_only :: env where
  "mic_only =
     \<lparr>isReactNative = False, doesVideoMuteByStreamRemove = True,
      pc_remove = (\<lambda>n. None), pc_add = (\<lambda>n. None),
      gum_outcome = (\<lambda>n opts. Inr [\<lparr>info_stream = mic_stream, info_track = mic,
                                     info_videoType = None\<rparr>])\<rparr>"

definition camera_request :: gum_options where
  "camera_request =
     \<lparr>opt_cameraDeviceId = Some ''cam-1'', opt_micDeviceId = None, opt_devices = [VIDEO],
      opt_effects = [], opt_facingMode = Some USER,
      opt_constraints = (VIDEO, TrackConstraints \<lparr>height_ideal = Some 720, width_ideal = Some 1280\<rparr>)\<rparr>"

definition grayscale :: effect where
  "grayscale = \<lparr>effect_id = 3, effect_json = ''{}'', isEnabled = (\<lambda>m v. m = VIDEO),
           has_isMuted = False, has_setMuted = False, effect_muted = False,
           startEffect = (\<lambda>s. \<lparr>stream_id = 300, active = True,
                                 tracks = (case s of None \<Rightarrow> [] | Some m \<Rightarrow> tracks m)\<rparr>)\<rparr>"

definition muted_while_switching :: "jitsi_local_track \<times> world" where
  "muted_while_switching =
     (case setEffect_begin (Some blur) (video_track, idle) of
        Inl out \<Rightarrow> snd out
      | Inr s1 \<Rightarrow> snd (setMuted reliable True s1))"

definition blurred_camera_request :: gum_options where
  "blurred_camera_request = camera_request\<lparr>opt_effects := [blur]\<rparr>"

definition camera_info :: "nat \<Rightarrow> stream_info" where
  "camera_info n = \<lparr>info_stream = camera_stream n, info_track = camera,
                    info_videoType = Some CAMERA\<rparr>"

definition device_A :: device_info where
  "device_A = \<lparr>dev_deviceId = ''A'', dev_kind = ''audioinput'', dev_label = ''Mic A''\<rparr>"

definition usb_mic_track :: jitsi_local_track where
  "usb_mic_track =
     audio_track\<lparr>track := Some (mic\<lparr>label := ''Mic A''\<rparr>), deviceId := ''A'',
                 realDeviceId := Some ''A''\<rparr>"

definition legacy_default_track :: jitsi_local_track where
  "legacy_default_track = audio_track\<lparr>track := Some (mic\<lparr>readyState := None\<rparr>)\<rparr>"

definition captureTrack :: "jitsi_local_track \<Rightarrow> media_stream_track option" where
  \<comment> \<open>The track of the capture handle below the active effect.\<close>
  "captureTrack t =
     (case streamEffect t of None \<Rightarrow> track t | Some _ \<Rightarrow> getTracks0 (originalStream t))"

definition picky :: env where
  "picky =
     \<lparr>isReactNative = False, doesVideoMuteByStreamRemove = True,
      pc_remove = (\<lambda>n. None), pc_add = (\<lambda>n. None),
      gum_outcome = (\<lambda>n opts. if n = 0 then Inl (JitsiTrackError CONSTRAINT_FAILED)
                               else Inr [\<lparr>info_stream = mic_stream\<lparr>stream_id := 9\<rparr>,
                                          info_track = mic, info_videoType = None\<rparr>])\<rparr>"

definition stereo :: audio_constraints where
  "stereo = \<lparr>c_deviceId = None, c_facingMode = None, c_autoGainControl = None,
             c_channelCount = Some (Some 2), c_echoCancellation = None,
             c_noiseSuppression = None\<rparr>"

text \<open>The constraints of the call \<^verbatim>\<open>applyConstraints({ deviceId: "X" })\<close>.\<close>

definition other_device :: audio_constraints where
  "other_device = \<lparr>c_deviceId = Some (Some ''X''), c_facingMode = None,
                   c_autoGainControl = None, c_channelCount = None,
                   c_echoCancellation = None, c_noiseSuppression = None\<rparr>"

text \<open>
  A platform that mutes video by toggling the enabled flag, with a conference that rejects
  every removal from the peer connection.
\<close>

definition soft_policy :: env where
  "soft_policy =
     \<lparr>isReactNative = False, doesVideoMuteByStreamRemove = False,
      pc_remove = (\<lambda>n. Some ''busy''), pc_add = (\<lambda>n. None),
      gum_outcome = (\<lambda>n opts. Inl (JitsiTrackError GENERAL))\<rparr>"

text \<open>
  The camera track after \<^verbatim>\<open>mute()\<close>, \<^verbatim>\<open>setEffect(blur)\<close> and \<^verbatim>\<open>unmute()\<close> on that platform.
\<close>

definition recorded_while_soft_muted :: "jitsi_local_track \<times> world" where
  "recorded_while_soft_muted =
     snd (setMuted soft_policy False
       (snd (setEffect soft_policy (Some blur)
         (snd (setMuted soft_policy True (video_track, idle))))))"

text \<open>The environment \<open>picky\<close> with a conference that rejects every re-addition.\<close>

definition picky_unattachable :: env where
  "picky_unattachable = picky\<lparr>pc_add := (\<lambda>n. Some ''ice failed'')\<rparr>"

lemmas example_defs =
  mic_settings_def mic_def mic_stream_def camera_settings_def camera_def camera_stream_def
  audio_track_def video_track_def blur_def mixer_def idle_def reliable_def flaky_def
  mic_only_def camera_request_def grayscale_def

lemmas base_defs =
  log_def isAudioTrack_def isVideoTrack_def getType_def isActive_def setStream_def
  getTracks0_def stopMediaStream_def conference_removeLocalTrackFromPc_def
  conference_addLocalTrackToPc_def conference_setTrackMuteStatus_def
  obtainAudioAndVideoPermissions_def isMuted_def stopStream_def

lemmas effect_defs = startStreamEffect_def stopStreamEffect_def switchStreamEffect_def

lemmas mute_defs =
  setMuted_def hardMute_def hardUnmute_def softMute_def muteByStreamRemove_def
  removeStreamFromConferenceAsMute_def addStreamToConferenceAsUnmute_def muteCompleted_def
  sendMuteStatus_def unmuteStreamOptions_def getCameraFacingMode_def getDeviceId_def
  adoptStreams_def setEnabled_def updateTrack0_def

section \<open>The mute transition queue is FIFO and survives failures\<close>

lemma queueSetMuted_runs_after:
  "queueSetMuted e m p s = setMuted e m (snd (p s))"
  by (cases "p s" rule: prod_cases3; cases "fst (p s)";
      simp add: queueSetMuted_def promise_then_def)

lemma submissions_in_order:
  "map (\<lambda>p. p s) (submissions e prev ms) = runInOrder e ms (snd (prev s))"
  by (induction ms arbitrary: prev) (simp_all add: queueSetMuted_runs_after)

text \<open>
  C1. A submission made through \<^verbatim>\<open>_queueSetMuted\<close> runs \<^verbatim>\<open>_setMuted\<close> in the state the
  previous submission left behind, whether that one was fulfilled or rejected; hence the
  promises returned for any sequence of submissions settle exactly as the transitions run
  one after the other, each to completion, in submission order.
\<close>

theorem queueSetMuted_fifo:
  "queueSetMuted e m prev s = setMuted e m (snd (prev s))
   \<and> map (\<lambda>p. p s) (submissions e promise_resolve ms) = runInOrder e ms s"
  by (simp add: queueSetMuted_runs_after submissions_in_order promise_resolve_def
           split: prod.splits)

text \<open>
  Two \<^verbatim>\<open>mute()\<close> calls on a camera track while the conference rejects the first removal: the
  first promise is rejected, the second transition runs all the same and is fulfilled.
\<close>

theorem queueSetMuted_fifo_witness:
  "map (\<lambda>p. fst (p (video_track, idle))) (submissions flaky promise_resolve [True, True])
     = [Inl (Error ''busy''), Inr ()]"
proof -
  have "map (\<lambda>p. p (video_track, idle)) (submissions flaky promise_resolve [True, True])
          = runInOrder flaky [True, True] (video_track, idle)"
    by (rule queueSetMuted_fifo [THEN conjunct2])
  then have "map fst (map (\<lambda>p. p (video_track, idle))
                        (submissions flaky promise_resolve [True, True]))
          = map fst (runInOrder flaky [True, True] (video_track, idle))"
    by (simp only:)
  moreover have "map fst (runInOrder flaky [True, True] (video_track, idle))
          = [Inl (Error ''busy''), Inr ()]"
    by (simp add: example_defs base_defs mute_defs)
  ultimately show ?thesis
    by (simp only: map_map o_def)
qed

section \<open>Transitions on a disposed track\<close>

text \<open>
  C2, as stated, fails: \<^verbatim>\<open>_setMuted\<close> tests for the no-op before it tests \<^verbatim>\<open>disposed\<close>, so
  unmuting a disposed audio track that is not muted resolves.
\<close>

theorem setMuted_disposed_counterexample:
  "disposed (audio_track\<lparr>disposed := True\<rparr>)
   \<and> setMuted reliable False (audio_track\<lparr>disposed := True\<rparr>, idle)
       = (Inr (), audio_track\<lparr>disposed := True\<rparr>, idle)"
  by (simp add: example_defs base_defs mute_defs)

text \<open>
  C2, amended. On a disposed track a transition never changes the track nor calls a
  collaborator; it is rejected with \<^verbatim>\<open>track.track_is_disposed\<close> when the target differs from
  the derived mute state or the track is a desktop track, and resolves as a no-op
  otherwise.
\<close>

theorem setMuted_disposed:
  "disposed t \<Longrightarrow>
   setMuted e muted (t, w) =
     (if isMuted t = muted \<and> videoType t \<noteq> Some DESKTOP then Inr ()
      else Inl (JitsiTrackError TRACK_IS_DISPOSED), t, w)"
  by (simp add: setMuted_def)

theorem setMuted_disposed_witness:
  "disposed (audio_track\<lparr>disposed := True\<rparr>)
   \<and> setMuted reliable True (audio_track\<lparr>disposed := True\<rparr>, idle)
       = (Inl (JitsiTrackError TRACK_IS_DISPOSED), audio_track\<lparr>disposed := True\<rparr>, idle)"
  using setMuted_disposed [of "audio_track\<lparr>disposed := True\<rparr>" reliable True idle]
  by (simp add: example_defs base_defs)

section \<open>Idempotence of mute and unmute\<close>

lemma hardMute_fulfilled:
  "hardMute e (t, w) = (Inr u, t1, w1) \<Longrightarrow> stream t1 = None \<and> videoType t1 = videoType t"
  by (auto simp: hardMute_def setStream_def stopStream_def stopStreamEffect_def Let_def
           split: prod.splits option.splits if_splits)

lemma setMuted_hard_mute_fulfilled:
  assumes "\<not> isAudioTrack t" and "muteByStreamRemove e t"
    and "setMuted e True (t, w) = (Inr u, t1, w1)"
  shows "isMuted t1 \<and> videoType t1 = videoType t"
proof (cases "isMuted t = True \<and> videoType t \<noteq> Some DESKTOP")
  case True
  with assms(3) show ?thesis by (simp add: setMuted_def)
next
  case False
  with assms obtain u' w' where "hardMute e (t, w) = (Inr u', t1, w')"
    by (auto simp: setMuted_def split: if_splits prod.splits sum.splits)
  then show ?thesis using hardMute_fulfilled [of e t w u' t1 w']
    by (simp add: isMuted_def)
qed

text \<open>
  C6. A transition whose target equals the derived mute state of a track that is not a
  desktop track resolves at once and changes neither the track nor any collaborator. In
  particular, after a fulfilled mute under the remove-by-stream policy, a second mute finds
  the track muted and is such a no-op: no second capture release.
\<close>

theorem setMuted_idempotent:
  "(isMuted t = muted \<and> videoType t \<noteq> Some DESKTOP
      \<longrightarrow> setMuted e muted (t, w) = (Inr (), t, w))
   \<and> (\<not> isAudioTrack t' \<and> muteByStreamRemove e' t' \<and> videoType t' \<noteq> Some DESKTOP
        \<and> fst (setMuted e' True (t', w')) = Inr ()
      \<longrightarrow> setMuted e' True (snd (setMuted e' True (t', w')))
            = (Inr (), snd (setMuted e' True (t', w'))))"
proof (intro conjI impI)
  assume "isMuted t = muted \<and> videoType t \<noteq> Some DESKTOP"
  then show "setMuted e muted (t, w) = (Inr (), t, w)"
    by (simp add: setMuted_def)
next
  assume h: "\<not> isAudioTrack t' \<and> muteByStreamRemove e' t' \<and> videoType t' \<noteq> Some DESKTOP
               \<and> fst (setMuted e' True (t', w')) = Inr ()"
  obtain r t1 w1 where r: "setMuted e' True (t', w') = (r, t1, w1)"
    by (cases "setMuted e' True (t', w')" rule: prod_cases3)
  with h have "setMuted e' True (t', w') = (Inr (), t1, w1)" by simp
  with h have "isMuted t1 \<and> videoType t1 = videoType t'"
    using setMuted_hard_mute_fulfilled [of t' e' w' "()" t1 w1] by simp
  with h r show "setMuted e' True (snd (setMuted e' True (t', w')))
                   = (Inr (), snd (setMuted e' True (t', w')))"
    by (simp add: setMuted_def)
qed

theorem setMuted_idempotent_witness:
  "(isMuted video_track = False \<and> videoType video_track \<noteq> Some DESKTOP)
   \<and> setMuted reliable False (video_track, idle) = (Inr (), video_track, idle)
   \<and> (\<not> isAudioTrack video_track \<and> muteByStreamRemove reliable video_track
        \<and> videoType video_track \<noteq> Some DESKTOP
        \<and> fst (setMuted reliable True (video_track, idle)) = Inr ())
   \<and> setMuted reliable True (snd (setMuted reliable True (video_track, idle)))
       = (Inr (), snd (setMuted reliable True (video_track, idle)))"
proof -
  have a: "isMuted video_track = False \<and> videoType video_track \<noteq> Some DESKTOP"
    by (simp add: example_defs base_defs)
  have b: "\<not> isAudioTrack video_track \<and> muteByStreamRemove reliable video_track
        \<and> videoType video_track \<noteq> Some DESKTOP
        \<and> fst (setMuted reliable True (video_track, idle)) = Inr ()"
    by (simp add: example_defs base_defs mute_defs)
  show ?thesis
    using a b setMuted_idempotent [of video_track False reliable idle
                                      video_track reliable idle]
    by blast
qed

section \<open>Unmute when the re-acquisition returns no stream of the track's kind\<close>

text \<open>
  C7. On the hard unmute path (the transition is not a no-op, the track is not disposed,
  not an audio track, and the policy is remove-by-stream), when the acquisition returns
  streams none of which has the kind of the track, the transition is rejected with
  \<^verbatim>\<open>track.no_stream_found\<close>; the track is unchanged (no handle adopted, no effect started)
  and the only call made is the acquisition itself: nothing is attached to the conference.
\<close>

theorem setMuted_no_stream_found:
  assumes "\<not> (isMuted t = False \<and> videoType t \<noteq> Some DESKTOP)"
    and "\<not> disposed t" and "\<not> isAudioTrack t" and "muteByStreamRemove e t"
    and "unmuteStreamOptions t = Inr opts"
    and "gum_outcome e (gum_calls w) opts = Inr streamsInfo"
    and "find (\<lambda>info. kind (info_track info) = getType t) streamsInfo = None"
  shows "setMuted e False (t, w) =
           (Inl (JitsiTrackError TRACK_NO_STREAM_FOUND), t,
            w\<lparr>gum_calls := Suc (gum_calls w),
              events := events w @ [ObtainAudioAndVideoPermissions opts]\<rparr>)"
  using assms
  by (simp add: setMuted_def hardUnmute_def obtainAudioAndVideoPermissions_def
                adoptStreams_def log_def)

theorem setMuted_no_stream_found_witness:
  "\<not> (isMuted (video_track\<lparr>stream := None\<rparr>) = False
        \<and> videoType (video_track\<lparr>stream := None\<rparr>) \<noteq> Some DESKTOP)
   \<and> \<not> disposed (video_track\<lparr>stream := None\<rparr>)
   \<and> \<not> isAudioTrack (video_track\<lparr>stream := None\<rparr>)
   \<and> muteByStreamRemove mic_only (video_track\<lparr>stream := None\<rparr>)
   \<and> unmuteStreamOptions (video_track\<lparr>stream := None\<rparr>) = Inr camera_request
   \<and> find (\<lambda>info. kind (info_track info) = getType (video_track\<lparr>stream := None\<rparr>))
        [\<lparr>info_stream = mic_stream, info_track = mic, info_videoType = None\<rparr>] = None
   \<and> setMuted mic_only False (video_track\<lparr>stream := None\<rparr>, idle) =
        (Inl (JitsiTrackError TRACK_NO_STREAM_FOUND), video_track\<lparr>stream := None\<rparr>,
         idle\<lparr>gum_calls := Suc (gum_calls idle),
              events := events idle @ [ObtainAudioAndVideoPermissions camera_request]\<rparr>)"
  using setMuted_no_stream_found [of "video_track\<lparr>stream := None\<rparr>" mic_only camera_request idle
          "[\<lparr>info_stream = mic_stream, info_track = mic, info_videoType = None\<rparr>]"]
  by (simp add: example_defs base_defs mute_defs camera_request_def)

section \<open>setEffect: guards\<close>

text \<open>
  C10. With no active effect, \<^verbatim>\<open>setEffect(undefined)\<close> resolves at once and changes
  nothing, whatever else holds of the track: the test precedes every guard, so the call is
  not rejected even while another switch is in progress.
\<close>

theorem setEffect_undefined_noop:
  "streamEffect t = None \<Longrightarrow> setEffect e None (t, w) = (Inr (), t, w)"
  by (simp add: setEffect_def setEffect_begin_def)

theorem setEffect_undefined_noop_witness:
  "streamEffect (video_track\<lparr>setEffectInProgress := True\<rparr>) = None
   \<and> setEffectInProgress (video_track\<lparr>setEffectInProgress := True\<rparr>)
   \<and> setEffect reliable None (video_track\<lparr>setEffectInProgress := True\<rparr>, idle)
       = (Inr (), video_track\<lparr>setEffectInProgress := True\<rparr>, idle)"
  using setEffect_undefined_noop [of "video_track\<lparr>setEffectInProgress := True\<rparr>" reliable idle]
  by (simp add: video_track_def)

section \<open>setEffect: rollback, single flight, muted video\<close>

lemma setEffect_begin_pending:
  "setEffect_begin ef (t, w) = Inr (t1, w1) \<longleftrightarrow>
     \<not> (streamEffect t = None \<and> ef = None)
     \<and> (\<forall>x. ef = Some x \<longrightarrow> isEnabled x (mediaType t) (videoType t))
     \<and> \<not> setEffectInProgress t
     \<and> \<not> (isMuted t \<and> \<not> isAudioTrack t)
     \<and> conference t \<noteq> None
     \<and> t1 = t\<lparr>setEffectInProgress := True\<rparr> \<and> w1 = w"
  by (auto simp: setEffect_begin_def split: option.splits prod.splits)

lemma setEffect_incompatible:
  "\<not> isEnabled x (mediaType t) (videoType t) \<Longrightarrow>
   setEffect e (Some x) (t, w) = (Inl (Error ''Incompatible effect instance!''), t, w)"
  by (simp add: setEffect_def setEffect_begin_def)

lemma setEffect_in_progress:
  "isEnabled x (mediaType t) (videoType t) \<Longrightarrow> setEffectInProgress t \<Longrightarrow>
   setEffect e (Some x) (t, w) = (Inl (Error ''setEffect already in progress!''), t, w)"
  by (simp add: setEffect_def setEffect_begin_def)

lemma attachContainers_world:
  "attachContainers cs s w = w\<lparr>events := events w @ map (\<lambda>c. AttachMediaStream c s) cs\<rparr>"
  by (induction cs arbitrary: w) (simp_all add: log_def)

lemma attachContainersIfVideo_world:
  "attachContainersIfVideo t w =
     w\<lparr>events := events w @ (if isVideoTrack t
                                then map (\<lambda>c. AttachMediaStream c (stream t)) (containers t)
                                else [])\<rparr>"
  by (simp add: attachContainersIfVideo_def attachContainers_world)

lemma switchStreamEffect_track:
  "streamEffect (fst (switchStreamEffect ef (t, w))) = ef"
  "setEffectInProgress (fst (switchStreamEffect ef (t, w))) = setEffectInProgress t"
  "mediaType (fst (switchStreamEffect ef (t, w))) = mediaType t"
  "containers (fst (switchStreamEffect ef (t, w))) = containers t"
  by (simp_all add: effect_defs setStream_def Let_def split: option.splits prod.splits)

lemma switchStreamEffect_started:
  assumes "effectStarted t"
  shows "stream (fst (switchStreamEffect ef (t, w)))
           = (case ef of None \<Rightarrow> preEffectStream t
              | Some x \<Rightarrow> Some (startEffect x (preEffectStream t)))"
    and "originalStream (fst (switchStreamEffect ef (t, w)))
           = (case ef of None \<Rightarrow> (case streamEffect t of None \<Rightarrow> originalStream t
                                   | Some _ \<Rightarrow> None)
              | Some _ \<Rightarrow> preEffectStream t)"
    and "track (fst (switchStreamEffect ef (t, w)))
           = (if streamEffect t = None \<and> ef = None then track t
              else getTracks0 (stream (fst (switchStreamEffect ef (t, w)))))"
  using assms
  by (auto simp add: effect_defs setStream_def Let_def preEffectStream_def effectStarted_def
           split: option.splits prod.splits)

lemma switchStreamEffect_undo:
  assumes "effectStarted t"
  shows "stream (fst (switchStreamEffect None (fst (switchStreamEffect ef (t, w)), w')))
           = preEffectStream t"
  using assms
  by (auto simp add: effect_defs setStream_def Let_def preEffectStream_def effectStarted_def
           split: option.splits prod.splits)

lemma switchStreamEffect_world:
  "snd (switchStreamEffect ef (t, w)) =
     w\<lparr>events := events w
          @ (case streamEffect t of None \<Rightarrow> [] | Some old \<Rightarrow> [StopEffect (effect_id old)])
          @ (case ef of None \<Rightarrow> [] | Some x \<Rightarrow> [StartEffect (effect_id x)])\<rparr>"
  by (simp add: effect_defs log_def Let_def split: option.splits prod.splits)

lemma setEffectInProgress_update:
  "preEffectStream (t\<lparr>setEffectInProgress := b\<rparr>) = preEffectStream t"
  "effectStarted (t\<lparr>setEffectInProgress := b\<rparr>) = effectStarted t"
  by (simp_all add: preEffectStream_def effectStarted_def split: option.splits)

lemmas setEffect_simps =
  switchStreamEffect_track switchStreamEffect_world attachContainersIfVideo_world
  setEffectInProgress_update

lemma setEffect_resume_fulfilled:
  assumes "pc_remove e (pc_calls w) = None" "pc_add e (Suc (pc_calls w)) = None"
  shows "fst (setEffect_resume e ef (t, w)) = Inr ()"
    "streamEffect (fst (snd (setEffect_resume e ef (t, w)))) = ef"
    "\<not> setEffectInProgress (fst (snd (setEffect_resume e ef (t, w))))"
    "pc_attached (snd (snd (setEffect_resume e ef (t, w))))" 
  using assms
  by (simp_all add: setEffect_resume_def conference_removeLocalTrackFromPc_def
        conference_addLocalTrackToPc_def Let_def case_prod_beta log_def
        setEffect_simps)

lemma setEffect_resume_fulfilled_stream:
  assumes "pc_remove e (pc_calls w) = None" "pc_add e (Suc (pc_calls w)) = None"
    and "effectStarted t"
  shows "stream (fst (snd (setEffect_resume e ef (t, w))))
           = (case ef of None \<Rightarrow> preEffectStream t
              | Some x \<Rightarrow> Some (startEffect x (preEffectStream t)))"
    "originalStream (fst (snd (setEffect_resume e ef (t, w))))
           = (case ef of None \<Rightarrow> (case streamEffect t of None \<Rightarrow> originalStream t
                                   | Some _ \<Rightarrow> None)
              | Some _ \<Rightarrow> preEffectStream t)"
  using assms
  by (simp_all add: setEffect_resume_def conference_removeLocalTrackFromPc_def
        conference_addLocalTrackToPc_def Let_def case_prod_beta log_def
        setEffect_simps switchStreamEffect_started)

lemma setEffect_resume_rejected:
  assumes "pc_remove e (pc_calls w) = Some r
           \<or> (pc_remove e (pc_calls w) = None \<and> pc_add e (Suc (pc_calls w)) = Some r)"
  shows "fst (setEffect_resume e ef (t, w)) = Inl (Rejection r)"
    "streamEffect (fst (snd (setEffect_resume e ef (t, w)))) = None"
    "\<not> setEffectInProgress (fst (snd (setEffect_resume e ef (t, w))))"
  using assms
  by (auto simp add: setEffect_resume_def setEffect_catch_def conference_removeLocalTrackFromPc_def
        conference_addLocalTrackToPc_def Let_def case_prod_beta log_def
        setEffect_simps)

lemma setEffect_resume_rejected_stream:
  assumes "pc_remove e (pc_calls w) = Some r
           \<or> (pc_remove e (pc_calls w) = None \<and> pc_add e (Suc (pc_calls w)) = Some r)"
    and "effectStarted t"
  shows "stream (fst (snd (setEffect_resume e ef (t, w)))) = preEffectStream t"
proof -
  have a: "stream (fst (switchStreamEffect None (t\<lparr>setEffectInProgress := False\<rparr>, w')))
             = preEffectStream t" for w'
    using switchStreamEffect_started(1) [of "t\<lparr>setEffectInProgress := False\<rparr>" None w'] assms(2)
    by (simp add: setEffectInProgress_update)
  have sw: "switchStreamEffect ef' (t'\<lparr>setEffectInProgress := False\<rparr>, w')
              = ((fst (switchStreamEffect ef' (t', w')))\<lparr>setEffectInProgress := False\<rparr>,
                 snd (switchStreamEffect ef' (t', w')))" for ef' t' w'
    by (simp add: effect_defs setStream_def Let_def split: option.splits prod.splits)
  have b: "stream (fst (switchStreamEffect None
             ((fst (switchStreamEffect ef (t, w')))\<lparr>setEffectInProgress := False\<rparr>, w'')))
             = preEffectStream t" for w' w''
    using switchStreamEffect_undo [OF assms(2), of ef w' w''] by (simp add: sw)
  from assms(1) show ?thesis
    by (auto simp add: setEffect_resume_def setEffect_catch_def
          conference_removeLocalTrackFromPc_def conference_addLocalTrackToPc_def Let_def
          case_prod_beta log_def setEffect_simps a b)
qed

lemma setEffect_resume_stops_started:
  assumes "pc_remove e (pc_calls w) = None" "pc_add e (Suc (pc_calls w)) = Some r"
  shows "last (events (snd (snd (setEffect_resume e (Some x) (t, w))))) = StopEffect (effect_id x)"
  using assms
  by (simp add: setEffect_resume_def setEffect_catch_def conference_removeLocalTrackFromPc_def
        conference_addLocalTrackToPc_def Let_def case_prod_beta log_def setEffect_simps)

text \<open>
  On a track whose recorded effect, if any, has been started, the rollback works as
  intended. When the removal from the peer connection or the re-addition is rejected with
  reason \<open>r\<close>, the promise is rejected with that reason, the track has no effect, its
  stream is the capture handle that lay below the effect before the call, and the
  in-progress flag is down; an effect started before the re-addition failed has been
  stopped last. The promise is fulfilled only when both calls succeeded, and then the
  switch is complete: the requested effect is the track's effect, its output on the
  capture handle is the track's stream, the capture handle is kept as the original stream,
  and the track is back in the peer connection.
\<close>

lemma setEffect_rollback_started:
  assumes "setEffect_begin ef (t, w) = Inr (t1, w1)"
    and "effectStarted t"
    and "setEffect e ef (t, w) = (res, t2, w2)"
  shows "(pc_remove e (pc_calls w) = Some r
            \<or> (pc_remove e (pc_calls w) = None \<and> pc_add e (Suc (pc_calls w)) = Some r)
          \<longrightarrow> res = Inl (Rejection r) \<and> streamEffect t2 = None
              \<and> stream t2 = preEffectStream t \<and> \<not> setEffectInProgress t2)
       \<and> (ef = Some x \<and> pc_remove e (pc_calls w) = None
            \<and> pc_add e (Suc (pc_calls w)) = Some r'
          \<longrightarrow> last (events w2) = StopEffect (effect_id x))
       \<and> (res = Inr ()
          \<longrightarrow> pc_remove e (pc_calls w) = None \<and> pc_add e (Suc (pc_calls w)) = None
              \<and> streamEffect t2 = ef
              \<and> stream t2 = (case ef of None \<Rightarrow> preEffectStream t
                              | Some y \<Rightarrow> Some (startEffect y (preEffectStream t)))
              \<and> originalStream t2 = (case ef of None \<Rightarrow> None | Some _ \<Rightarrow> preEffectStream t)
              \<and> pc_attached w2 \<and> \<not> setEffectInProgress t2)"
proof -
  from assms(1) have t1: "t1 = t\<lparr>setEffectInProgress := True\<rparr>" and w1: "w1 = w"
    and ne: "\<not> (streamEffect t = None \<and> ef = None)"
    by (simp_all add: setEffect_begin_pending)
  from assms(2) t1 have st: "effectStarted t1"
    by (simp add: setEffectInProgress_update)
  from assms have run: "setEffect_resume e ef (t1, w) = (res, t2, w2)"
    by (simp add: setEffect_def w1)
  have a: "res = Inl (Rejection r) \<and> streamEffect t2 = None
              \<and> stream t2 = preEffectStream t \<and> \<not> setEffectInProgress t2"
    if "pc_remove e (pc_calls w) = Some r
            \<or> (pc_remove e (pc_calls w) = None \<and> pc_add e (Suc (pc_calls w)) = Some r)" for r
    using setEffect_resume_rejected [OF that, of ef t1]
      setEffect_resume_rejected_stream [OF that st, of ef] run
    by (simp add: t1 setEffectInProgress_update)
  have b: "last (events w2) = StopEffect (effect_id x)"
    if "ef = Some x \<and> pc_remove e (pc_calls w) = None
            \<and> pc_add e (Suc (pc_calls w)) = Some r'"
    using that run setEffect_resume_stops_started [of e w r' x t1] by simp
  have c: "pc_remove e (pc_calls w) = None \<and> pc_add e (Suc (pc_calls w)) = None
              \<and> streamEffect t2 = ef
              \<and> stream t2 = (case ef of None \<Rightarrow> preEffectStream t
                              | Some y \<Rightarrow> Some (startEffect y (preEffectStream t)))
              \<and> originalStream t2 = (case ef of None \<Rightarrow> None | Some _ \<Rightarrow> preEffectStream t)
              \<and> pc_attached w2 \<and> \<not> setEffectInProgress t2"
    if ok: "res = Inr ()"
  proof -
    have rm: "pc_remove e (pc_calls w) = None"
    proof (cases "pc_remove e (pc_calls w)")
      case (Some q)
      then show ?thesis using a [of q] ok by simp
    qed simp
    have ad: "pc_add e (Suc (pc_calls w)) = None"
    proof (cases "pc_add e (Suc (pc_calls w))")
      case (Some q)
      then show ?thesis using a [of q] rm ok by simp
    qed simp
    show ?thesis
      using setEffect_resume_fulfilled [OF rm ad, of ef t1]
        setEffect_resume_fulfilled_stream [OF rm ad st, of ef] run rm ad ne
      by (auto simp add: t1 setEffectInProgress_update split: option.splits)
  qed
  show ?thesis using a b c by blast
qed

text \<open>
  C4 fails on a track the class itself produces. On a platform that mutes video by
  toggling the enabled flag, \<^verbatim>\<open>mute()\<close>, \<^verbatim>\<open>setEffect(blur)\<close> and \<^verbatim>\<open>unmute()\<close> leave a live
  camera track, attached to its conference, whose effect is recorded but was never started:
  \<^verbatim>\<open>setEffect\<close> recorded it because the track was muted, and the soft unmute does not start
  it. When \<^verbatim>\<open>setEffect(grayscale)\<close> is then called and the conference rejects the removal,
  the catch handler rethrows the reason and leaves the track without an effect, but it
  restores the stream from the original-stream slot, which was never filled: the track
  ends with neither stream nor track, and the live capture handle it had before the call
  is lost instead of being restored. The hard unmute path starts a recorded effect on the
  stream it adopts; the soft unmute path has no such step.
\<close>

theorem setEffect_rollback_loses_handle:
  "fst (setMuted soft_policy True (video_track, idle)) = Inr ()
   \<and> fst (setEffect soft_policy (Some blur)
            (snd (setMuted soft_policy True (video_track, idle)))) = Inr ()
   \<and> fst (setMuted soft_policy False
            (snd (setEffect soft_policy (Some blur)
              (snd (setMuted soft_policy True (video_track, idle)))))) = Inr ()
   \<and> conference (fst recorded_while_soft_muted) = Some 0
   \<and> \<not> isMuted (fst recorded_while_soft_muted)
   \<and> streamEffect (fst recorded_while_soft_muted) = Some blur
   \<and> originalStream (fst recorded_while_soft_muted) = None
   \<and> stream (fst recorded_while_soft_muted) = Some (camera_stream 2)
   \<and> track (fst recorded_while_soft_muted) = Some camera
   \<and> fst (setEffect soft_policy (Some grayscale) recorded_while_soft_muted)
       = Inl (Rejection ''busy'')
   \<and> streamEffect (fst (snd (setEffect soft_policy (Some grayscale)
                               recorded_while_soft_muted))) = None
   \<and> stream (fst (snd (setEffect soft_policy (Some grayscale)
                         recorded_while_soft_muted))) = None
   \<and> track (fst (snd (setEffect soft_policy (Some grayscale)
                        recorded_while_soft_muted))) = None
   \<and> isMuted (fst (snd (setEffect soft_policy (Some grayscale) recorded_while_soft_muted)))"
  by (simp add: recorded_while_soft_muted_def soft_policy_def setEffect_def
        setEffect_begin_def setEffect_resume_def setEffect_catch_def grayscale_def
        example_defs base_defs mute_defs effect_defs)

text \<open>
  C5, as stated, fails: the compatibility guard precedes the single-flight guard, so while a
  switch is in progress a call with a defined effect that is not compatible with the track
  is rejected with the incompatible-effect error, not with the in-progress error.
\<close>

theorem setEffect_guards_counterexample:
  "setEffectInProgress (video_track\<lparr>setEffectInProgress := True\<rparr>)
   \<and> setEffect reliable (Some mixer) (video_track\<lparr>setEffectInProgress := True\<rparr>, idle)
       = (Inl (Error ''Incompatible effect instance!''),
          video_track\<lparr>setEffectInProgress := True\<rparr>, idle)
   \<and> fst (setEffect reliable (Some mixer) (video_track\<lparr>setEffectInProgress := True\<rparr>, idle))
       \<noteq> Inl (Error ''setEffect already in progress!'')"
  by (simp add: setEffect_def setEffect_begin_def video_track_def mixer_def)

text \<open>
  C5, amended. A defined effect that is not enabled for the track is rejected with
  \<^verbatim>\<open>Incompatible effect instance!\<close> and nothing changes. While a switch is in progress, a
  call with a defined effect that is enabled for the track is rejected with
  \<^verbatim>\<open>setEffect already in progress!\<close> and nothing changes. In particular, once a first call
  with \<open>x1\<close> is pending, a second call with an enabled \<open>x2\<close> is rejected that way, and
  when the conference then completes the first switch its promise is fulfilled with \<open>x1\<close>
  as the track's effect.
\<close>

theorem setEffect_guards:
  "(\<not> isEnabled x (mediaType t) (videoType t)
      \<longrightarrow> setEffect e (Some x) (t, w) = (Inl (Error ''Incompatible effect instance!''), t, w))
   \<and> (setEffectInProgress t' \<and> isEnabled x' (mediaType t') (videoType t')
      \<longrightarrow> setEffect e (Some x') (t', w')
            = (Inl (Error ''setEffect already in progress!''), t', w'))
   \<and> (setEffect_begin (Some x1) (t0, w0) = Inr (t1, w1)
        \<and> isEnabled x2 (mediaType t0) (videoType t0)
        \<and> pc_remove e (pc_calls w1) = None \<and> pc_add e (Suc (pc_calls w1)) = None
      \<longrightarrow> setEffect e (Some x2) (t1, w1)
            = (Inl (Error ''setEffect already in progress!''), t1, w1)
          \<and> fst (setEffect_resume e (Some x1) (t1, w1)) = Inr ()
          \<and> streamEffect (fst (snd (setEffect_resume e (Some x1) (t1, w1)))) = Some x1)"
proof (intro conjI impI)
  assume "\<not> isEnabled x (mediaType t) (videoType t)"
  then show "setEffect e (Some x) (t, w) = (Inl (Error ''Incompatible effect instance!''), t, w)"
    by (rule setEffect_incompatible)
next
  assume "setEffectInProgress t' \<and> isEnabled x' (mediaType t') (videoType t')"
  then show "setEffect e (Some x') (t', w')
               = (Inl (Error ''setEffect already in progress!''), t', w')"
    by (simp add: setEffect_in_progress)
next
  assume h: "setEffect_begin (Some x1) (t0, w0) = Inr (t1, w1)
        \<and> isEnabled x2 (mediaType t0) (videoType t0)
        \<and> pc_remove e (pc_calls w1) = None \<and> pc_add e (Suc (pc_calls w1)) = None"
  then have t1: "t1 = t0\<lparr>setEffectInProgress := True\<rparr>"
    by (simp add: setEffect_begin_pending)
  with h show "setEffect e (Some x2) (t1, w1)
            = (Inl (Error ''setEffect already in progress!''), t1, w1)"
    by (simp add: setEffect_in_progress)
  from h show "fst (setEffect_resume e (Some x1) (t1, w1)) = Inr ()"
    by (simp add: setEffect_resume_fulfilled)
  from h show "streamEffect (fst (snd (setEffect_resume e (Some x1) (t1, w1)))) = Some x1"
    by (simp add: setEffect_resume_fulfilled)
qed

theorem setEffect_guards_witness:
  "\<not> isEnabled mixer (mediaType video_track) (videoType video_track)
   \<and> setEffect reliable (Some mixer) (video_track, idle)
       = (Inl (Error ''Incompatible effect instance!''), video_track, idle)
   \<and> setEffect_begin (Some blur) (video_track, idle)
       = Inr (video_track\<lparr>setEffectInProgress := True\<rparr>, idle)
   \<and> isEnabled grayscale (mediaType video_track) (videoType video_track)
   \<and> setEffect reliable (Some grayscale) (video_track\<lparr>setEffectInProgress := True\<rparr>, idle)
       = (Inl (Error ''setEffect already in progress!''),
          video_track\<lparr>setEffectInProgress := True\<rparr>, idle)
   \<and> fst (setEffect_resume reliable (Some blur)
             (video_track\<lparr>setEffectInProgress := True\<rparr>, idle)) = Inr ()
   \<and> streamEffect (fst (snd (setEffect_resume reliable (Some blur)
             (video_track\<lparr>setEffectInProgress := True\<rparr>, idle)))) = Some blur"
proof -
  have a: "\<not> isEnabled mixer (mediaType video_track) (videoType video_track)"
    by (simp add: mixer_def video_track_def)
  have b: "setEffect_begin (Some blur) (video_track, idle)
             = Inr (video_track\<lparr>setEffectInProgress := True\<rparr>, idle)"
    by (simp add: setEffect_begin_def example_defs base_defs)
  have c: "isEnabled grayscale (mediaType video_track) (videoType video_track)"
          "setEffectInProgress (video_track\<lparr>setEffectInProgress := True\<rparr>)"
          "isEnabled grayscale (mediaType (video_track\<lparr>setEffectInProgress := True\<rparr>))
             (videoType (video_track\<lparr>setEffectInProgress := True\<rparr>))"
    by (simp_all add: grayscale_def video_track_def)
  have d: "pc_remove reliable (pc_calls idle) = None"
          "pc_add reliable (Suc (pc_calls idle)) = None"
    by (simp_all add: reliable_def)
  show ?thesis
    using a b c d
      setEffect_guards [of mixer video_track reliable idle
        "video_track\<lparr>setEffectInProgress := True\<rparr>" grayscale idle
        blur video_track idle "video_track\<lparr>setEffectInProgress := True\<rparr>" idle grayscale]
    by blast
qed

lemma startStreamEffect_track:
  "streamEffect (fst (startStreamEffect x (t, w))) = Some x"
  "originalStream (fst (startStreamEffect x (t, w))) = stream t"
  "stream (fst (startStreamEffect x (t, w))) = Some (startEffect x (stream t))"
  by (simp_all add: startStreamEffect_def setStream_def Let_def)

lemma startStreamEffect_world:
  "snd (startStreamEffect x (t, w)) = w\<lparr>events := events w @ [StartEffect (effect_id x)]\<rparr>"
  by (simp add: startStreamEffect_def log_def Let_def)

lemma adoptStreams_starts_effect:
  assumes "streamEffect t = Some x"
    and "find (\<lambda>info. kind (info_track info) = getType t) streamsInfo = Some streamInfo"
  shows "streamEffect (fst (snd (adoptStreams e streamsInfo (t, w)))) = Some x"
    "originalStream (fst (snd (adoptStreams e streamsInfo (t, w)))) = Some (info_stream streamInfo)"
    "stream (fst (snd (adoptStreams e streamsInfo (t, w))))
       = Some (startEffect x (Some (info_stream streamInfo)))"
    "StartEffect (effect_id x) \<in> set (events (snd (snd (adoptStreams e streamsInfo (t, w)))))"
  using assms
  by (simp_all add: adoptStreams_def Let_def case_prod_beta setStream_def
        startStreamEffect_track startStreamEffect_world attachContainers_world
        addStreamToConferenceAsUnmute_def conference_addLocalTrackToPc_def log_def
        split: option.splits)

text \<open>
  C9, as stated, fails: a camera track that was hard-muted while a switch was pending is a
  muted video track, and \<^verbatim>\<open>setEffect\<close> with a compatible effect is rejected by the
  single-flight guard; the effect is not recorded.
\<close>

theorem setEffect_while_muted_counterexample:
  "isVideoTrack (fst muted_while_switching)
   \<and> stream (fst muted_while_switching) = None
   \<and> isMuted (fst muted_while_switching)
   \<and> muteByStreamRemove reliable (fst muted_while_switching)
   \<and> isEnabled grayscale (mediaType (fst muted_while_switching))
        (videoType (fst muted_while_switching))
   \<and> setEffect reliable (Some grayscale) muted_while_switching
       = (Inl (Error ''setEffect already in progress!''), muted_while_switching)
   \<and> streamEffect (fst muted_while_switching) = None"
  by (simp add: muted_while_switching_def setEffect_def setEffect_begin_def grayscale_def
        example_defs base_defs mute_defs)

text \<open>
  C9, amended. On a video track whose capture handle has been released (hard-muted) and on
  which no switch is in progress, \<^verbatim>\<open>setEffect\<close> with a compatible effect resolves and only
  records the effect: no other field of the track changes and no collaborator is called.
  When the track is then unmuted under the remove-by-stream policy and the acquisition
  returns a video stream, the recorded effect is started on the adopted stream: it is still
  the track's effect, the adopted stream is kept as the original stream, and the track's
  stream is the effect's output.
\<close>

theorem setEffect_while_muted:
  assumes "isVideoTrack t" and "stream t = None"
    and "\<not> setEffectInProgress t" and "isEnabled x (mediaType t) (videoType t)"
  shows "setEffect e (Some x) (t, w) = (Inr (), t\<lparr>streamEffect := Some x\<rparr>, w)
       \<and> (\<not> disposed t \<and> muteByStreamRemove e t
            \<and> unmuteStreamOptions (t\<lparr>streamEffect := Some x\<rparr>) = Inr opts
            \<and> gum_outcome e (gum_calls w') opts = Inr streamsInfo
            \<and> find (\<lambda>info. kind (info_track info) = VIDEO) streamsInfo = Some streamInfo
          \<longrightarrow> streamEffect (fst (snd (setMuted e False (t\<lparr>streamEffect := Some x\<rparr>, w')))) = Some x
              \<and> originalStream (fst (snd (setMuted e False (t\<lparr>streamEffect := Some x\<rparr>, w'))))
                  = Some (info_stream streamInfo)
              \<and> stream (fst (snd (setMuted e False (t\<lparr>streamEffect := Some x\<rparr>, w'))))
                  = Some (startEffect x (Some (info_stream streamInfo)))
              \<and> StartEffect (effect_id x)
                  \<in> set (events (snd (snd (setMuted e False (t\<lparr>streamEffect := Some x\<rparr>, w'))))))"
proof (intro conjI impI)
  show "setEffect e (Some x) (t, w) = (Inr (), t\<lparr>streamEffect := Some x\<rparr>, w)"
    using assms by (simp add: setEffect_def setEffect_begin_def isMuted_def isAudioTrack_def
                              isVideoTrack_def)
next
  let ?t = "t\<lparr>streamEffect := Some x\<rparr>"
  assume h: "\<not> disposed t \<and> muteByStreamRemove e t
            \<and> unmuteStreamOptions ?t = Inr opts
            \<and> gum_outcome e (gum_calls w') opts = Inr streamsInfo
            \<and> find (\<lambda>info. kind (info_track info) = VIDEO) streamsInfo = Some streamInfo"
  define w1 where "w1 = log (ObtainAudioAndVideoPermissions opts) (w'\<lparr>gum_calls := Suc (gum_calls w')\<rparr>)"
  define out where "out = adoptStreams e streamsInfo (?t, w1)"
  have f: "find (\<lambda>info. kind (info_track info) = getType ?t) streamsInfo = Some streamInfo"
    using h assms(1) by (simp add: getType_def isVideoTrack_def)
  have hu: "hardUnmute e (?t, w') = out"
    using h by (simp add: hardUnmute_def obtainAudioAndVideoPermissions_def out_def w1_def)
  have sm: "fst (snd (setMuted e False (?t, w'))) = fst (snd out)
            \<and> set (events (snd (snd out))) \<subseteq> set (events (snd (snd (setMuted e False (?t, w')))))"
    using h assms hu
    by (cases out rule: prod_cases3; cases "fst out")
       (auto simp add: setMuted_def isMuted_def isAudioTrack_def isVideoTrack_def
          muteByStreamRemove_def muteCompleted_def sendMuteStatus_def
          conference_setTrackMuteStatus_def log_def Let_def case_prod_beta)
  note ad = adoptStreams_starts_effect [of ?t x streamsInfo streamInfo e w1, OF _ f,
                                        folded out_def, simplified]
  show "streamEffect (fst (snd (setMuted e False (?t, w')))) = Some x"
    using sm ad by simp
  show "originalStream (fst (snd (setMuted e False (?t, w')))) = Some (info_stream streamInfo)"
    using sm ad by simp
  show "stream (fst (snd (setMuted e False (?t, w'))))
          = Some (startEffect x (Some (info_stream streamInfo)))"
    using sm ad by simp
  show "StartEffect (effect_id x) \<in> set (events (snd (snd (setMuted e False (?t, w')))))"
    using sm ad by blast
qed

theorem setEffect_while_muted_witness:
  "isVideoTrack (video_track\<lparr>stream := None\<rparr>)
   \<and> stream (video_track\<lparr>stream := None\<rparr>) = None
   \<and> \<not> setEffectInProgress (video_track\<lparr>stream := None\<rparr>)
   \<and> isEnabled blur (mediaType (video_track\<lparr>stream := None\<rparr>))
        (videoType (video_track\<lparr>stream := None\<rparr>))
   \<and> setEffect reliable (Some blur) (video_track\<lparr>stream := None\<rparr>, idle)
       = (Inr (), video_track\<lparr>stream := None, streamEffect := Some blur\<rparr>, idle)
   \<and> \<not> disposed (video_track\<lparr>stream := None\<rparr>)
   \<and> muteByStreamRemove reliable (video_track\<lparr>stream := None\<rparr>)
   \<and> unmuteStreamOptions (video_track\<lparr>stream := None, streamEffect := Some blur\<rparr>)
       = Inr blurred_camera_request
   \<and> gum_outcome reliable (gum_calls idle) blurred_camera_request = Inr [camera_info 3]
   \<and> find (\<lambda>info. kind (info_track info) = VIDEO) [camera_info 3] = Some (camera_info 3)
   \<and> streamEffect (fst (snd (setMuted reliable False
         (video_track\<lparr>stream := None, streamEffect := Some blur\<rparr>, idle)))) = Some blur
   \<and> stream (fst (snd (setMuted reliable False
         (video_track\<lparr>stream := None, streamEffect := Some blur\<rparr>, idle))))
       = Some (startEffect blur (Some (camera_stream 3)))
   \<and> StartEffect (effect_id blur) \<in> set (events (snd (snd (setMuted reliable False
         (video_track\<lparr>stream := None, streamEffect := Some blur\<rparr>, idle)))))"
proof -
  have a: "isVideoTrack (video_track\<lparr>stream := None\<rparr>)"
      "stream (video_track\<lparr>stream := None\<rparr>) = None"
      "\<not> setEffectInProgress (video_track\<lparr>stream := None\<rparr>)"
      "isEnabled blur (mediaType (video_track\<lparr>stream := None\<rparr>))
        (videoType (video_track\<lparr>stream := None\<rparr>))"
    by (simp_all add: video_track_def blur_def isVideoTrack_def)
  have b: "\<not> disposed (video_track\<lparr>stream := None\<rparr>)
      \<and> muteByStreamRemove reliable (video_track\<lparr>stream := None\<rparr>)
      \<and> unmuteStreamOptions (video_track\<lparr>stream := None, streamEffect := Some blur\<rparr>)
          = Inr blurred_camera_request
      \<and> gum_outcome reliable (gum_calls idle) blurred_camera_request = Inr [camera_info 3]
      \<and> find (\<lambda>info. kind (info_track info) = VIDEO) [camera_info 3] = Some (camera_info 3)"
    by (simp add: example_defs base_defs mute_defs blurred_camera_request_def camera_info_def)
  have c: "info_stream (camera_info 3) = camera_stream 3"
    by (simp add: camera_info_def)
  show ?thesis
    using a b
      setEffect_while_muted [OF a, of reliable idle blurred_camera_request idle
                               "[camera_info 3]" "camera_info 3"]
    unfolding c by simp
qed

section \<open>Device resolution watcher: the ended flag\<close>

lemma find_Some_mem: "find P xs = Some x \<Longrightarrow> x \<in> set xs"
  by (induction xs) (auto split: if_splits)

lemma setRealDeviceIdFromDeviceList_fields:
  "setRealDeviceIdFromDeviceList devices t = Inr t1 \<Longrightarrow>
     trackEnded t1 = trackEnded t \<and> track t1 = track t
     \<and> (\<forall>d. realDeviceId t1 = Some d \<longrightarrow> d \<in> set (map dev_deviceId devices))"
  by (auto simp: setRealDeviceIdFromDeviceList_def Let_def
           split: option.splits if_splits dest!: find_Some_mem)

lemma find_resolved:
  "\<forall>d. r = Some d \<longrightarrow> d \<in> set (map dev_deviceId devices) \<Longrightarrow> r \<noteq> None \<Longrightarrow>
     find (\<lambda>d. Some (dev_deviceId d) = r) devices \<noteq> None"
  by (auto simp: find_None_iff)

lemma onDeviceListWillChange_ended:
  assumes "onDeviceListWillChange devices t = Inr t1"
  shows "trackEnded t1 = (trackEnded t \<or> (realDeviceId t \<noteq> None \<and> realDeviceId t1 = None))"
    and "\<forall>d. realDeviceId t1 = Some d \<longrightarrow> d \<in> set (map dev_deviceId devices)"
proof -
  from assms obtain t0 where s: "setRealDeviceIdFromDeviceList devices t = Inr t0"
    by (auto simp: onDeviceListWillChange_def Let_def split: sum.splits)
  note f = setRealDeviceIdFromDeviceList_fields [OF s]
  from f have nf: "realDeviceId t0 \<noteq> None \<longrightarrow>
                    find (\<lambda>d. Some (dev_deviceId d) = realDeviceId t0) devices \<noteq> None"
    using find_resolved [of "realDeviceId t0" devices] by blast
  from assms s f nf
  show "trackEnded t1 = (trackEnded t \<or> (realDeviceId t \<noteq> None \<and> realDeviceId t1 = None))"
    by (auto simp: onDeviceListWillChange_def Let_def split: option.splits if_splits)
  from assms s f
  show "\<forall>d. realDeviceId t1 = Some d \<longrightarrow> d \<in> set (map dev_deviceId devices)"
    by (auto simp: onDeviceListWillChange_def Let_def split: option.splits if_splits)
qed

lemma deviceListWillChange_step:
  "trackEnded (deviceListWillChange t devices)
     = (trackEnded t \<or> (realDeviceId t \<noteq> None \<and> realDeviceId (deviceListWillChange t devices) = None))"
  using onDeviceListWillChange_ended(1) [of devices t]
  by (cases "onDeviceListWillChange devices t") (auto simp: deviceListWillChange_def)

lemma deviceListWillChange_sticky:
  "trackEnded t \<Longrightarrow> trackEnded (foldl deviceListWillChange t notifications)"
  by (induction notifications arbitrary: t) (simp_all add: deviceListWillChange_step)

lemma onDeviceListWillChange_total:
  assumes "track t \<noteq> None"
  shows "\<exists>t1. onDeviceListWillChange devices t = Inr t1"
proof -
  from assms have "\<exists>t0. setRealDeviceIdFromDeviceList devices t = Inr t0"
    by (cases "track t") (auto simp: setRealDeviceIdFromDeviceList_def Let_def split: option.split)
  then obtain t0 where s: "setRealDeviceIdFromDeviceList devices t = Inr t0" ..
  with assms setRealDeviceIdFromDeviceList_fields [OF s] show ?thesis
    by (auto simp: onDeviceListWillChange_def Let_def split: option.splits)
qed

lemma deviceListWillChange_resolved:
  assumes "track t \<noteq> None" and "realDeviceId (deviceListWillChange t devices) = Some d"
  shows "d \<in> set (map dev_deviceId devices)"
proof -
  from assms(1) obtain t1 where r: "onDeviceListWillChange devices t = Inr t1"
    using onDeviceListWillChange_total by blast
  with assms(2) onDeviceListWillChange_ended(2) [OF r] show ?thesis
    by (simp add: deviceListWillChange_def)
qed

text \<open>
  C8, as stated, fails. A track on a browser without \<^verbatim>\<open>readyState\<close>, resolved to the
  default device, receives a list from which the default entry is gone but which still
  holds the device behind it: the track is re-resolved by label to that device and is not
  marked as ended, although the handle exposes no liveness signal and the device it was
  resolved to is absent from the new list.
\<close>

theorem deviceListWillChange_ended_counterexample:
  "map_option readyState (track legacy_default_track) = Some None
   \<and> realDeviceId legacy_default_track = Some ''default''
   \<and> ''default'' \<notin> set (map dev_deviceId [device_A])
   \<and> realDeviceId (deviceListWillChange legacy_default_track [device_A]) = Some ''A''
   \<and> \<not> trackEnded (deviceListWillChange legacy_default_track [device_A])"
  by (simp add: legacy_default_track_def device_A_def deviceListWillChange_def
        onDeviceListWillChange_def setRealDeviceIdFromDeviceList_def media_type_name_def
        audio_track_def mic_def Let_def)

text \<open>
  C8, amended. A notification sets the ended flag exactly when the resolved device id
  flips from defined to undefined, and otherwise leaves the flag as it was. The test for
  handles without a liveness signal looks the freshly resolved id up in the new list, from
  which that id was just taken, so it never sets the flag by itself. Once set, the flag
  survives every later sequence of notifications.
\<close>

theorem deviceListWillChange_ended:
  "trackEnded (deviceListWillChange t devices)
     = (trackEnded t
        \<or> (realDeviceId t \<noteq> None \<and> realDeviceId (deviceListWillChange t devices) = None))
   \<and> (track t \<noteq> None \<and> realDeviceId (deviceListWillChange t devices) = Some d
        \<longrightarrow> d \<in> set (map dev_deviceId devices))
   \<and> (trackEnded t' \<longrightarrow> trackEnded (foldl deviceListWillChange t' notifications))"
  using deviceListWillChange_step [of t devices] deviceListWillChange_resolved [of t devices d]
    deviceListWillChange_sticky [of t' notifications]
  by blast

text \<open>
  A track resolved to device A: the list \<open>[A]\<close> leaves it live, the empty list ends it,
  and it stays ended when A reappears.
\<close>

theorem deviceListWillChange_ended_witness:
  "\<not> trackEnded (deviceListWillChange usb_mic_track [device_A])
   \<and> track (deviceListWillChange usb_mic_track [device_A]) \<noteq> None
   \<and> realDeviceId (deviceListWillChange usb_mic_track [device_A]) = Some ''A''
   \<and> ''A'' \<in> set (map dev_deviceId [device_A])
   \<and> realDeviceId (deviceListWillChange (deviceListWillChange usb_mic_track [device_A]) []) = None
   \<and> trackEnded (deviceListWillChange (deviceListWillChange usb_mic_track [device_A]) [])
   \<and> trackEnded (foldl deviceListWillChange
        (deviceListWillChange (deviceListWillChange usb_mic_track [device_A]) [])
        [[device_A], [], [device_A]])"
proof -
  let ?t1 = "deviceListWillChange usb_mic_track [device_A]"
  let ?t2 = "deviceListWillChange ?t1 []"
  have a: "\<not> trackEnded ?t1 \<and> track ?t1 \<noteq> None \<and> realDeviceId ?t1 = Some ''A''
           \<and> track usb_mic_track \<noteq> None"
    by (simp add: usb_mic_track_def device_A_def deviceListWillChange_def
        onDeviceListWillChange_def setRealDeviceIdFromDeviceList_def media_type_name_def
        audio_track_def mic_def Let_def)
  have b: "realDeviceId ?t2 = None"
    using a
    by (auto simp add: deviceListWillChange_def onDeviceListWillChange_def
          setRealDeviceIdFromDeviceList_def Let_def split: option.splits)
  have c: "trackEnded ?t2"
    using a b deviceListWillChange_ended [of ?t1 "[]" "''A''" ?t2 "[]"] by simp
  have d: "''A'' \<in> set (map dev_deviceId [device_A])"
    using a deviceListWillChange_ended [of usb_mic_track "[device_A]" "''A''" ?t2 "[]"] by blast
  have e: "trackEnded (foldl deviceListWillChange ?t2 [[device_A], [], [device_A]])"
    using c deviceListWillChange_ended [of ?t1 "[]" "''A''" ?t2 "[[device_A], [], [device_A]]"]
    by blast
  show ?thesis using a b c d e by blast
qed

section \<open>applyConstraints: fallback to the initial settings\<close>

lemma reacquire_fallback:
  assumes "gum_outcome e (gum_calls w) (constraintOptions m toApply (settings_deviceId toApply))
             = Inl err
           \<or> gum_outcome e (gum_calls w) (constraintOptions m toApply (settings_deviceId toApply))
             = Inr []"
    and "gum_outcome e (Suc (gum_calls w))
           (constraintOptions m initialSettings (settings_deviceId toApply))
          = Inr (mediaStreamData # rest)"
  shows "reacquire e m initialSettings toApply w =
           (Inr (Some mediaStreamData),
            w\<lparr>gum_calls := Suc (Suc (gum_calls w)),
              events := events w
                @ [ObtainAudioAndVideoPermissions
                     (constraintOptions m toApply (settings_deviceId toApply)),
                   ObtainAudioAndVideoPermissions
                     (constraintOptions m initialSettings (settings_deviceId toApply))]\<rparr>)"
  using assms
  by (auto simp: reacquire_def obtainAudioAndVideoPermissions_def log_def)

lemma constraintsToApply_deviceId:
  "settings_deviceId (constraintsToApply initialSettings c)
     = override (settings_deviceId initialSettings) (c_deviceId c)"
  by (simp add: constraintsToApply_def)

text \<open>
  The whole run with no effect on the track, whatever the conference answers to the
  re-addition.
\<close>

lemma applyConstraints_fallback_plain:
  assumes "isAudioTrack t" and "streamEffect t = None" and "conference t \<noteq> None"
    and "track t = Some tr"
    and "pc_remove e (pc_calls w) = None"
    and "gum_outcome e (gum_calls w)
           (constraintOptions AUDIO (constraintsToApply (settings tr) c)
              (settings_deviceId (constraintsToApply (settings tr) c))) = r1"
    and "r1 = Inl err \<or> r1 = Inr []"
    and "gum_outcome e (Suc (gum_calls w))
           (constraintOptions AUDIO (settings tr)
              (settings_deviceId (constraintsToApply (settings tr) c)))
          = Inr (mediaStreamData # rest)"
    and "pc_add e (Suc (pc_calls w)) = added"
  shows "applyConstraints e c (t, w) =
     ((case added of None \<Rightarrow> Inr () | Some r \<Rightarrow> Inl (Rejection r)),
      t\<lparr>stopStreamInProgress := False, stream := Some (info_stream mediaStreamData),
        track := Some (info_track mediaStreamData)\<rparr>,
      w\<lparr>pc_calls := Suc (Suc (pc_calls w)), gum_calls := Suc (Suc (gum_calls w)),
        pc_attached := (added = None),
        events := events w @
          [RemoveLocalTrackFromPc, StopMediaStream (stream t),
           ObtainAudioAndVideoPermissions
             (constraintOptions AUDIO (constraintsToApply (settings tr) c)
                (settings_deviceId (constraintsToApply (settings tr) c))),
           ObtainAudioAndVideoPermissions
             (constraintOptions AUDIO (settings tr)
                (settings_deviceId (constraintsToApply (settings tr) c))),
           AddLocalTrackToPc]\<rparr>)"
  using assms(7) assms(1-6,8-)
  by (cases added; elim disjE)
     (simp_all add: applyConstraints_def reacquire_def obtainAudioAndVideoPermissions_def
        Let_def isAudioTrack_def getType_def
        conference_removeLocalTrackFromPc_def conference_addLocalTrackToPc_def log_def
        stopStream_def setStream_def)

text \<open>The whole run with an effect that has its own mute.\<close>

lemma applyConstraints_fallback_mix:
  assumes "isAudioTrack t" and "streamEffect t = Some ef" and "has_setMuted ef"
    and "conference t \<noteq> None"
    and "getTracks0 (originalStream t) = Some tr"
    and "pc_remove e (pc_calls w) = None"
    and "gum_outcome e (gum_calls w)
           (constraintOptions AUDIO (constraintsToApply (settings tr) c)
              (settings_deviceId (constraintsToApply (settings tr) c))) = r1"
    and "r1 = Inl err \<or> r1 = Inr []"
    and "gum_outcome e (Suc (gum_calls w))
           (constraintOptions AUDIO (settings tr)
              (settings_deviceId (constraintsToApply (settings tr) c)))
          = Inr (mediaStreamData # rest)"
    and "pc_add e (Suc (pc_calls w)) = added"
  shows "applyConstraints e c (t, w) =
     ((case added of None \<Rightarrow> Inr () | Some r \<Rightarrow> Inl (Rejection r)),
      t\<lparr>stopStreamInProgress := False,
        originalStream := Some (info_stream mediaStreamData),
        stream := Some (startEffect ef (Some (info_stream mediaStreamData))),
        track := getTracks0 (Some (startEffect ef (Some (info_stream mediaStreamData))))\<rparr>,
      w\<lparr>pc_calls := Suc (Suc (pc_calls w)), gum_calls := Suc (Suc (gum_calls w)),
        pc_attached := (added = None),
        events := events w @
          [RemoveLocalTrackFromPc, StopEffect (effect_id ef),
           StopMediaStream (originalStream t),
           ObtainAudioAndVideoPermissions
             (constraintOptions AUDIO (constraintsToApply (settings tr) c)
                (settings_deviceId (constraintsToApply (settings tr) c))),
           ObtainAudioAndVideoPermissions
             (constraintOptions AUDIO (settings tr)
                (settings_deviceId (constraintsToApply (settings tr) c))),
           StartEffect (effect_id ef), AddLocalTrackToPc]\<rparr>)"
  using assms(8) assms(1-7,9-)
  by (cases added; elim disjE)
     (simp_all add: applyConstraints_def reacquire_def obtainAudioAndVideoPermissions_def
        Let_def isAudioTrack_def getType_def
        conference_removeLocalTrackFromPc_def conference_addLocalTrackToPc_def log_def
        stopStream_def setStream_def stopStreamEffect_def startStreamEffect_def)

text \<open>
  C3, amended. On an audio track that has a capture track and is attached to a conference
  (with no effect, or with an effect that has its own mute), whose removal from the peer
  connection succeeds, when the
  acquisition with the merged constraints is rejected or returns no stream and the
  acquisition with the initial settings returns a stream, \<^verbatim>\<open>applyConstraints\<close> makes exactly
  these two acquisitions. The second asks for the initial settings as constraints, together
  with the device id of the merged constraints, which is the one of the initial settings
  when the constraints have no \<^verbatim>\<open>deviceId\<close> key. The stream of the second acquisition is
  adopted as the capture handle and the first failure is not surfaced: when the conference
  accepts the re-addition the promise resolves with the track back in the peer connection;
  when it rejects the re-addition the promise is rejected with the conference's reason and
  the track stays out of the peer connection.
\<close>

theorem applyConstraints_fallback:
  assumes "isAudioTrack t"
    and "\<forall>ef. streamEffect t = Some ef \<longrightarrow> has_setMuted ef"
    and "conference t \<noteq> None"
    and "captureTrack t = Some tr"
    and "pc_remove e (pc_calls w) = None"
    and "gum_outcome e (gum_calls w)
           (constraintOptions AUDIO (constraintsToApply (settings tr) c)
              (settings_deviceId (constraintsToApply (settings tr) c))) = Inl err
         \<or> gum_outcome e (gum_calls w)
           (constraintOptions AUDIO (constraintsToApply (settings tr) c)
              (settings_deviceId (constraintsToApply (settings tr) c))) = Inr []"
    and "gum_outcome e (Suc (gum_calls w))
           (constraintOptions AUDIO (settings tr)
              (settings_deviceId (constraintsToApply (settings tr) c)))
          = Inr (mediaStreamData # rest)"
    and "applyConstraints e c (t, w) = (res, t', w')"
  shows "gum_calls w' = gum_calls w + 2
       \<and> (\<exists>before after. events w' =
             before
             @ [ObtainAudioAndVideoPermissions
                  (constraintOptions AUDIO (constraintsToApply (settings tr) c)
                     (settings_deviceId (constraintsToApply (settings tr) c))),
                ObtainAudioAndVideoPermissions
                  (constraintOptions AUDIO (settings tr)
                     (settings_deviceId (constraintsToApply (settings tr) c)))]
             @ after)
       \<and> (c_deviceId c = None
            \<longrightarrow> settings_deviceId (constraintsToApply (settings tr) c)
                  = settings_deviceId (settings tr))
       \<and> preEffectStream t' = Some (info_stream mediaStreamData)
       \<and> streamEffect t' = streamEffect t
       \<and> conference t' = conference t
       \<and> (pc_add e (Suc (pc_calls w)) = None \<longrightarrow> res = Inr () \<and> pc_attached w')
       \<and> (\<forall>r. pc_add e (Suc (pc_calls w)) = Some r
              \<longrightarrow> res = Inl (Rejection r) \<and> \<not> pc_attached w')"
proof -
  let ?dev = "settings_deviceId (constraintsToApply (settings tr) c)"
  let ?o1 = "ObtainAudioAndVideoPermissions
               (constraintOptions AUDIO (constraintsToApply (settings tr) c) ?dev)"
  let ?o2 = "ObtainAudioAndVideoPermissions (constraintOptions AUDIO (settings tr) ?dev)"
  obtain r1 where r1: "gum_outcome e (gum_calls w)
           (constraintOptions AUDIO (constraintsToApply (settings tr) c) ?dev) = r1" by simp
  with assms(6) have f: "r1 = Inl err \<or> r1 = Inr []" by simp
  obtain added where ad: "pc_add e (Suc (pc_calls w)) = added" by simp
  have dev: "c_deviceId c = None \<longrightarrow> ?dev = settings_deviceId (settings tr)"
    by (simp add: constraintsToApply_deviceId override_def)
  show ?thesis
  proof (cases "streamEffect t")
    case None
    with assms(4) have tr: "track t = Some tr" by (simp add: captureTrack_def)
    note eq = applyConstraints_fallback_plain
                [OF assms(1) None assms(3) tr assms(5) r1 f assms(7) ad]
    have ev: "events w' = (events w @ [RemoveLocalTrackFromPc, StopMediaStream (stream t)])
                @ [?o1, ?o2] @ [AddLocalTrackToPc]"
      using eq assms(8) by auto
    have rest: "gum_calls w' = gum_calls w + 2
       \<and> preEffectStream t' = Some (info_stream mediaStreamData)
       \<and> streamEffect t' = streamEffect t \<and> conference t' = conference t
       \<and> res = (case added of None \<Rightarrow> Inr () | Some r \<Rightarrow> Inl (Rejection r))
       \<and> pc_attached w' = (added = None)"
      using eq assms(8) None by (auto simp: preEffectStream_def)
    from ev have ex: "\<exists>before after. events w' = before @ [?o1, ?o2] @ after"
      by blast
    from rest ad have ok: "pc_add e (Suc (pc_calls w)) = None \<longrightarrow> res = Inr () \<and> pc_attached w'"
      by auto
    from rest ad have ko: "\<forall>r. pc_add e (Suc (pc_calls w)) = Some r
                             \<longrightarrow> res = Inl (Rejection r) \<and> \<not> pc_attached w'"
      by auto
    from ex rest dev ok ko show ?thesis by blast
  next
    case (Some ef)
    with assms(2) have mix: "has_setMuted ef" by simp
    from assms(4) Some have tr: "getTracks0 (originalStream t) = Some tr"
      by (simp add: captureTrack_def)
    note eq = applyConstraints_fallback_mix
                [OF assms(1) Some mix assms(3) tr assms(5) r1 f assms(7) ad]
    have ev: "events w' = (events w @ [RemoveLocalTrackFromPc, StopEffect (effect_id ef),
                                        StopMediaStream (originalStream t)])
                @ [?o1, ?o2] @ [StartEffect (effect_id ef), AddLocalTrackToPc]"
      using eq assms(8) by auto
    have rest: "gum_calls w' = gum_calls w + 2
       \<and> preEffectStream t' = Some (info_stream mediaStreamData)
       \<and> streamEffect t' = streamEffect t \<and> conference t' = conference t
       \<and> res = (case added of None \<Rightarrow> Inr () | Some r \<Rightarrow> Inl (Rejection r))
       \<and> pc_attached w' = (added = None)"
      using eq assms(8) Some by (auto simp: preEffectStream_def)
    from ev have ex: "\<exists>before after. events w' = before @ [?o1, ?o2] @ after"
      by blast
    from rest ad have ok: "pc_add e (Suc (pc_calls w)) = None \<longrightarrow> res = Inr () \<and> pc_attached w'"
      by auto
    from rest ad have ko: "\<forall>r. pc_add e (Suc (pc_calls w)) = Some r
                             \<longrightarrow> res = Inl (Rejection r) \<and> \<not> pc_attached w'"
      by auto
    from ex rest dev ok ko show ?thesis by blast
  qed
qed

text \<open>
  C3, as stated, fails, on the spec's own scenario: \<^verbatim>\<open>applyConstraints({ deviceId: "X" })\<close>
  where the acquisition with the new constraints is rejected and the one with the initial
  settings succeeds. The promise resolves: the first error is logged and not rethrown. The
  retry asks for the initial settings as constraints, but with \<^verbatim>\<open>"X"\<close> as the microphone
  device id.
\<close>

theorem applyConstraints_fallback_counterexample:
  "gum_outcome picky (gum_calls idle)
     (constraintOptions AUDIO (constraintsToApply mic_settings other_device) (Some ''X''))
     = Inl (JitsiTrackError CONSTRAINT_FAILED)
   \<and> gum_outcome picky (Suc (gum_calls idle))
       (constraintOptions AUDIO mic_settings (Some ''X''))
     = Inr [\<lparr>info_stream = mic_stream\<lparr>stream_id := 9\<rparr>, info_track = mic,
             info_videoType = None\<rparr>]
   \<and> fst (applyConstraints picky other_device (audio_track, idle)) = Inr ()
   \<and> ObtainAudioAndVideoPermissions (constraintOptions AUDIO mic_settings (Some ''X''))
       \<in> set (events (snd (snd (applyConstraints picky other_device (audio_track, idle)))))
   \<and> settings_deviceId mic_settings = Some ''default''"
  by (simp add: applyConstraints_def reacquire_def obtainAudioAndVideoPermissions_def
        Let_def constraintsToApply_def constraintOptions_def override_def other_device_def
        picky_def example_defs base_defs effect_defs)

text \<open>
  Asking the default microphone for two channels while the first acquisition is rejected:
  with a conference that accepts the re-addition, and with one that rejects it.
\<close>

theorem applyConstraints_fallback_witness:
  "isAudioTrack audio_track
   \<and> conference audio_track \<noteq> None
   \<and> captureTrack audio_track = Some mic
   \<and> c_deviceId stereo = None
   \<and> settings_deviceId (constraintsToApply (settings mic) stereo) = Some ''default''
   \<and> gum_outcome picky (gum_calls idle)
       (constraintOptions AUDIO (constraintsToApply (settings mic) stereo)
          (settings_deviceId (constraintsToApply (settings mic) stereo)))
     = Inl (JitsiTrackError CONSTRAINT_FAILED)
   \<and> gum_outcome picky (Suc (gum_calls idle))
       (constraintOptions AUDIO (settings mic)
          (settings_deviceId (constraintsToApply (settings mic) stereo)))
     = Inr [\<lparr>info_stream = mic_stream\<lparr>stream_id := 9\<rparr>, info_track = mic,
             info_videoType = None\<rparr>]
   \<and> pc_add picky (Suc (pc_calls idle)) = None
   \<and> fst (applyConstraints picky stereo (audio_track, idle)) = Inr ()
   \<and> gum_calls (snd (snd (applyConstraints picky stereo (audio_track, idle)))) = 2
   \<and> stream (fst (snd (applyConstraints picky stereo (audio_track, idle))))
       = Some (mic_stream\<lparr>stream_id := 9\<rparr>)
   \<and> pc_attached (snd (snd (applyConstraints picky stereo (audio_track, idle))))
   \<and> pc_add picky_unattachable (Suc (pc_calls idle)) = Some ''ice failed''
   \<and> fst (applyConstraints picky_unattachable stereo (audio_track, idle))
       = Inl (Rejection ''ice failed'')
   \<and> \<not> pc_attached (snd (snd (applyConstraints picky_unattachable stereo
                                  (audio_track, idle))))"
proof -
  let ?dev = "settings_deviceId (constraintsToApply (settings mic) stereo)"
  let ?sd = "\<lparr>info_stream = mic_stream\<lparr>stream_id := 9\<rparr>, info_track = mic,
              info_videoType = None\<rparr>"
  have a: "isAudioTrack audio_track"
      "\<forall>ef. streamEffect audio_track = Some ef \<longrightarrow> has_setMuted ef"
      "conference audio_track \<noteq> None"
      "captureTrack audio_track = Some mic"
    by (simp_all add: audio_track_def isAudioTrack_def captureTrack_def)
  have k: "c_deviceId stereo = None" "?dev = Some ''default''"
    by (simp_all add: stereo_def constraintsToApply_def override_def mic_def mic_settings_def)
  have rm: "pc_remove en (pc_calls idle) = None"
    if "en = picky \<or> en = picky_unattachable" for en
    using that by (auto simp add: picky_def picky_unattachable_def)
  have b: "gum_outcome en (gum_calls idle)
             (constraintOptions AUDIO (constraintsToApply (settings mic) stereo) ?dev)
           = Inl (JitsiTrackError CONSTRAINT_FAILED)"
    if "en = picky \<or> en = picky_unattachable" for en
    using that by (auto simp add: picky_def picky_unattachable_def idle_def)
  have c: "gum_outcome en (Suc (gum_calls idle)) (constraintOptions AUDIO (settings mic) ?dev)
           = Inr [?sd]"
    if "en = picky \<or> en = picky_unattachable" for en
    using that by (auto simp add: picky_def picky_unattachable_def idle_def)
  have d: "pc_add picky (Suc (pc_calls idle)) = None"
          "pc_add picky_unattachable (Suc (pc_calls idle)) = Some ''ice failed''"
    by (simp_all add: picky_def picky_unattachable_def)
  have p: "applyConstraints en stereo (audio_track, idle)
             = (fst (applyConstraints en stereo (audio_track, idle)),
                fst (snd (applyConstraints en stereo (audio_track, idle))),
                snd (snd (applyConstraints en stereo (audio_track, idle))))" for en
    by simp
  have g: "gum_calls idle = 0" "streamEffect audio_track = None"
    by (simp_all add: idle_def audio_track_def)
  note th1 = applyConstraints_fallback
               [OF a rm [of picky] disjI1 [OF b [of picky]] c [of picky] p [of picky]]
  note th2 = applyConstraints_fallback
               [OF a rm [of picky_unattachable] disjI1 [OF b [of picky_unattachable]]
                   c [of picky_unattachable] p [of picky_unattachable]]
  from th1 have "preEffectStream (fst (snd (applyConstraints picky stereo (audio_track, idle))))
                  = Some (mic_stream\<lparr>stream_id := 9\<rparr>)
                \<and> streamEffect (fst (snd (applyConstraints picky stereo (audio_track, idle))))
                  = None"
    using g by simp
  then have s: "stream (fst (snd (applyConstraints picky stereo (audio_track, idle))))
                  = Some (mic_stream\<lparr>stream_id := 9\<rparr>)"
    by (auto simp add: preEffectStream_def)
  from th1 g have n: "gum_calls (snd (snd (applyConstraints picky stereo (audio_track, idle)))) = 2"
    by simp
  from th1 d have ok: "fst (applyConstraints picky stereo (audio_track, idle)) = Inr ()
        \<and> pc_attached (snd (snd (applyConstraints picky stereo (audio_track, idle))))"
    by blast
  from th2 d have ko: "fst (applyConstraints picky_unattachable stereo (audio_track, idle))
          = Inl (Rejection ''ice failed'')
        \<and> \<not> pc_attached (snd (snd (applyConstraints picky_unattachable stereo
                                       (audio_track, idle))))"
    by blast
  show ?thesis using a k b [of picky] c [of picky] d s n ok ko by blast
qed

end
